theory Spec2Isabelle
  imports Complex_Main "HOL-Library.Multiset"
begin

section \<open>Python values, dictionaries and exceptions\<close>

text \<open>
  The tools of the covered-call strategist pass option contracts and technical snapshots
  around as Python dictionaries from field names to dynamically typed values. A value is
  \<open>None\<close>, a number or a string; Python's \<open>int\<close> and \<open>float\<close> are both read as
  exact real numbers (no binary rounding, no overflow, no NaN), so \<open>/\<close> is exact division
  and raises on a zero divisor, as Python's does.
\<close>

datatype pyval = VNone | VNum real | VStr string

datatype py_error = KeyError string | TypeError | ValueError | AttributeError | ZeroDivisionError

type_synonym pydict = "string \<rightharpoonup> pyval"

text \<open>
  A computation that may raise: \<open>Inl e\<close> is the exception \<open>e\<close>, \<open>Inr x\<close> the value
  \<open>x\<close>. \<open>bind_exc m f\<close> runs \<open>m\<close>, then \<open>f\<close> on its value; an exception of
  \<open>m\<close> skips \<open>f\<close>.
\<close>

definition bind_exc :: "'e + 'a \<Rightarrow> ('a \<Rightarrow> 'e + 'b) \<Rightarrow> 'e + 'b" where
  "bind_exc m f = (case m of Inl e \<Rightarrow> Inl e | Inr x \<Rightarrow> f x)"

text \<open>\<open>d[k]\<close>: raises \<open>KeyError\<close> on a missing key.\<close>

definition getitem :: "pydict \<Rightarrow> string \<Rightarrow> py_error + pyval" where
  "getitem d k = (case d k of None \<Rightarrow> Inl (KeyError k) | Some v \<Rightarrow> Inr v)"

text \<open>\<open>d.get(k, default)\<close>.\<close>

definition get_default :: "pydict \<Rightarrow> string \<Rightarrow> pyval \<Rightarrow> pyval" where
  "get_default d k dflt = (case d k of None \<Rightarrow> dflt | Some v \<Rightarrow> v)"

text \<open>
  A value used as an operand of arithmetic or of an ordering comparison with a number:
  \<open>None\<close> and strings raise \<open>TypeError\<close> there.
\<close>

definition as_num :: "pyval \<Rightarrow> py_error + real" where
  "as_num v = (case v of VNum x \<Rightarrow> Inr x | _ \<Rightarrow> Inl TypeError)"

definition is_num :: "pyval \<Rightarrow> bool" where
  "is_num v = (case v of VNum x \<Rightarrow> True | _ \<Rightarrow> False)"

text \<open>Truth value of an object, as \<open>if x:\<close> and \<open>x or y\<close> test it.\<close>

definition truthy :: "pyval \<Rightarrow> bool" where
  "truthy v = (case v of VNone \<Rightarrow> False | VNum x \<Rightarrow> x \<noteq> 0 | VStr s \<Rightarrow> s \<noteq> [])"

definition py_div :: "real \<Rightarrow> real \<Rightarrow> py_error + real" where
  "py_div a b = (if b = 0 then Inl ZeroDivisionError else Inr (a / b))"

text \<open>
  \<open>round(x, n)\<close>: the nearest multiple of \<open>10\<^sup>-\<^sup>n\<close>, a tie going to the even
  neighbour.
\<close>

definition round_half_even :: "real \<Rightarrow> int" where
  "round_half_even x =
     (let f = \<lfloor>x\<rfloor>; d = x - of_int f
      in if d < 1 / 2 then f else if 1 / 2 < d then f + 1
         else if even f then f else f + 1)"

definition py_round :: "real \<Rightarrow> nat \<Rightarrow> real" where
  "py_round x n = of_int (round_half_even (x * 10 ^ n)) / 10 ^ n"


section \<open>Metrics calculator (analysis\_tools)\<close>

text \<open>
  The dictionary that \<open>calculate_option_metrics\<close> returns on success. \<open>strike\<close> and
  \<open>days_to_expiry\<close> have been compared with \<open>0\<close> by then, so they are numbers; the
  premium is the \<open>bid\<close> entry as found.
\<close>

record metrics =
  strike :: real
  expiration :: pyval
  premium :: pyval
  premium_yield :: real
  annualized_return :: real
  is_itm :: bool
  moneyness :: real
  days_to_expiry :: real
  open_interest :: pyval
  implied_volatility :: pyval

text \<open>
  \<open>calculate_option_metrics(option, stock_price)\<close>. The body runs inside
  \<open>try ... except Exception\<close>; \<open>Inl e\<close> stands for the returned
  \<open>{"error": ...}\<close> dictionary, \<open>e\<close> being the exception that was caught.
  The steps are in the order in which Python evaluates them.
\<close>

definition calculate_option_metrics :: "pydict \<Rightarrow> real \<Rightarrow> py_error + metrics" where
  "calculate_option_metrics opt stock_price =
     bind_exc (getitem opt ''strike'') (\<lambda>strike_v.
     bind_exc (getitem opt ''bid'') (\<lambda>premium_v.
     bind_exc (getitem opt ''days_to_expiry'') (\<lambda>days_v.
     bind_exc (as_num strike_v) (\<lambda>strike_n.
     bind_exc (if strike_n > 0
               then bind_exc (as_num premium_v) (\<lambda>premium_n. Inr (premium_n / strike_n * 100))
               else Inr 0) (\<lambda>yield.
     bind_exc (as_num days_v) (\<lambda>days.
     bind_exc (Inr (if days > 0 then yield / days * 365 else 0)) (\<lambda>annualized.
     bind_exc (py_div (strike_n - stock_price) stock_price) (\<lambda>q.
     bind_exc (getitem opt ''expiration'') (\<lambda>expiration_v.
       Inr \<lparr> strike = strike_n,
             expiration = expiration_v,
             premium = premium_v,
             premium_yield = py_round yield 4,
             annualized_return = py_round annualized 2,
             is_itm = (strike_n < stock_price),
             moneyness = py_round (q * 100) 2,
             days_to_expiry = days,
             open_interest = get_default opt ''open_interest'' (VNum 0),
             implied_volatility = get_default opt ''implied_volatility'' (VNum 0) \<rparr>)))))))))"

text \<open>The result of \<open>calculate_breakeven\<close> when no exception was caught.\<close>

record breakeven =
  breakeven_price :: real
  downside_protection_percent :: real

text \<open>
  \<open>calculate_breakeven(stock_price, premium)\<close>; \<open>Inl e\<close> is the dictionary of the
  \<open>except\<close> branch, whose two results are \<open>None\<close> and whose \<open>error\<close> is set.
\<close>

definition calculate_breakeven :: "real \<Rightarrow> pyval \<Rightarrow> py_error + breakeven" where
  "calculate_breakeven stock_price premium_v =
     bind_exc (as_num premium_v) (\<lambda>premium_n.
     bind_exc (py_div premium_n stock_price) (\<lambda>q.
       Inr \<lparr> breakeven_price = py_round (stock_price - premium_n) 2,
             downside_protection_percent = py_round (q * 100) 2 \<rparr>))"


text \<open>
  The result dictionary of \<open>find_best_option\<close>: \<open>found\<close>, \<open>best_option\<close> and
  \<open>error\<close>.
\<close>

record best_result =
  found :: bool
  best_option :: "metrics option"
  best_error :: "string option"

text \<open>
  The selection loop, with its two variables \<open>best_option\<close> and \<open>best_annualized\<close> as
  the state. A candidate whose metrics carry an \<open>error\<close> is skipped; a candidate replaces
  the best one only when its annualized return is strictly greater. The same loop, up to the
  names of its variables, is the body of \<open>find_best_option\<close>, of
  \<open>_select_strike_based_on_technicals\<close> and of each tier of
  \<open>_create_layered_strategy\<close>.
\<close>

fun best_yield_loop ::
  "real \<Rightarrow> pydict list \<Rightarrow> metrics option \<times> real \<Rightarrow> metrics option \<times> real" where
  "best_yield_loop stock_price [] state = state"
| "best_yield_loop stock_price (opt # rest) (best, best_annualized) =
     (case calculate_option_metrics opt stock_price of
        Inl e \<Rightarrow> best_yield_loop stock_price rest (best, best_annualized)
      | Inr m \<Rightarrow>
          if annualized_return m > best_annualized
          then best_yield_loop stock_price rest (Some m, annualized_return m)
          else best_yield_loop stock_price rest (best, best_annualized))"

text \<open>
  \<open>find_best_option(filtered_options, stock_price)\<close>. Nothing inside its \<open>try\<close> can
  raise here, so the \<open>except\<close> branch has no counterpart.
\<close>

definition find_best_option :: "pydict list \<Rightarrow> real \<Rightarrow> best_result" where
  "find_best_option filtered_options stock_price =
     (if filtered_options = []
      then \<lparr> found = False, best_option = None,
             best_error = Some ''No options available after filtering.'' \<rparr>
      else case fst (best_yield_loop stock_price filtered_options (None, - 1)) of
             None \<Rightarrow> \<lparr> found = False, best_option = None,
                       best_error = Some ''Could not calculate metrics for any options.'' \<rparr>
           | Some m \<Rightarrow> \<lparr> found = True, best_option = Some m, best_error = None \<rparr>)"

text \<open>The result of \<open>calculate_max_profit\<close> when no exception was caught.\<close>

record max_profit =
  contracts :: int
  shares :: int
  capital_gain_per_share :: real
  total_capital_gain :: real
  premium_per_share :: real
  total_premium :: real
  total_max_profit :: real
  max_return_percent :: real

definition calculate_max_profit :: "real \<Rightarrow> real \<Rightarrow> pyval \<Rightarrow> int \<Rightarrow> py_error + max_profit" where
  "calculate_max_profit stock_price strike_n premium_v n_shares =
     bind_exc (as_num premium_v) (\<lambda>premium_n.
     let gain_per_share = strike_n - stock_price in
     bind_exc (py_div (gain_per_share * of_int n_shares + premium_n * of_int n_shares)
                      (stock_price * of_int n_shares)) (\<lambda>q.
       Inr \<lparr> contracts = n_shares div 100,
             shares = n_shares,
             capital_gain_per_share = py_round gain_per_share 2,
             total_capital_gain = py_round (gain_per_share * of_int n_shares) 2,
             premium_per_share = py_round premium_n 2,
             total_premium = py_round (premium_n * of_int n_shares) 2,
             total_max_profit =
               py_round (gain_per_share * of_int n_shares + premium_n * of_int n_shares) 2,
             max_return_percent = py_round (q * 100) 2 \<rparr>))"


section \<open>Technical indicator engine: the aggregation of get\_technical\_analysis\<close>

text \<open>
  The part of \<open>get_technical_analysis\<close> after the four indicators have been computed
  (from \<open>bullish_signals = 0\<close> to the returned dictionary). Its inputs are the RSI value,
  \<open>macd["trend"]\<close>, \<open>mas["trend"]\<close> and \<open>volume["signal"]\<close>; fetching the price history
  and computing the indicators from it is left out.
\<close>

record signals =
  rsi_signal :: string
  bullish_signals :: real
  bearish_signals :: real
  bounce_potential :: "string option"

definition rsi_analysis :: "real \<Rightarrow> signals" where
  "rsi_analysis rsi =
     (if rsi > 70 then
        \<lparr> rsi_signal = ''overbought'', bullish_signals = 0, bearish_signals = 0 + 5 / 10,
          bounce_potential = Some ''overbought_pullback'' \<rparr>
      else if rsi < 35 then
        \<lparr> rsi_signal = ''oversold'', bullish_signals = 0 + 5 / 10, bearish_signals = 0,
          bounce_potential = Some ''oversold_bounce'' \<rparr>
      else if rsi > 65 then
        \<lparr> rsi_signal = ''near_overbought'', bullish_signals = 0, bearish_signals = 0 + 3 / 10,
          bounce_potential = None \<rparr>
      else if rsi > 55 then
        \<lparr> rsi_signal = ''bullish'', bullish_signals = 0 + 1, bearish_signals = 0,
          bounce_potential = None \<rparr>
      else if rsi < 45 then
        \<lparr> rsi_signal = ''bearish'', bullish_signals = 0, bearish_signals = 0 + 1,
          bounce_potential = None \<rparr>
      else
        \<lparr> rsi_signal = ''neutral'', bullish_signals = 0, bearish_signals = 0,
          bounce_potential = None \<rparr>)"

definition macd_analysis :: "string \<Rightarrow> signals \<Rightarrow> signals" where
  "macd_analysis trend s =
     (if trend = ''bullish'' then s\<lparr>bullish_signals := bullish_signals s + 1\<rparr>
      else if trend = ''bearish'' then s\<lparr>bearish_signals := bearish_signals s + 1\<rparr>
      else s)"

definition moving_average_analysis :: "string \<Rightarrow> signals \<Rightarrow> signals" where
  "moving_average_analysis trend s =
     (if trend = ''strong_bullish'' \<or> trend = ''bullish''
        then s\<lparr>bullish_signals := bullish_signals s + 1\<rparr>
      else if trend = ''strong_bearish'' \<or> trend = ''bearish''
        then s\<lparr>bearish_signals := bearish_signals s + 1\<rparr>
      else s)"

definition volume_analysis :: "string \<Rightarrow> signals \<Rightarrow> signals" where
  "volume_analysis signal s =
     (if signal = ''bullish_volume'' then s\<lparr>bullish_signals := bullish_signals s + 1\<rparr>
      else if signal = ''bearish_volume'' then s\<lparr>bearish_signals := bearish_signals s + 1\<rparr>
      else s)"

definition bullish_ratio :: "signals \<Rightarrow> real" where
  "bullish_ratio s =
     (let total_signals = bullish_signals s + bearish_signals s
      in if total_signals > 0 then bullish_signals s / total_signals else 5 / 10)"

text \<open>The snapshot's aggregated fields.\<close>

record assessment = signals +
  sentiment :: string
  assignment_risk :: string
  recommendation :: string

definition classify :: "signals \<Rightarrow> assessment" where
  "classify s =
     (let ratio = bullish_ratio s in
      if bounce_potential s = Some ''oversold_bounce'' then
        if ratio < 4 / 10 then
          signals.extend s (assessment.fields ''oversold_bounce_risk'' ''moderate''
            ''Stock is oversold - potential bounce. Consider layered strikes or wait for confirmation.'')
        else
          signals.extend s (assessment.fields ''oversold_with_bullish'' ''moderate''
            ''Oversold with bullish signals - high bounce probability. Use defensive strikes.'')
      else if bounce_potential s = Some ''overbought_pullback'' then
        if ratio > 6 / 10 then
          signals.extend s (assessment.fields ''overbought_pullback_risk'' ''moderate''
            ''Stock is overbought - potential pullback. ATM strikes may be safe.'')
        else
          signals.extend s (assessment.fields ''overbought_with_bearish'' ''low''
            ''Overbought with bearish signals - pullback likely. Good for covered calls.'')
      else if ratio \<ge> 7 / 10 then
        signals.extend s (assessment.fields ''bullish'' ''high''
          ''Consider higher strike or wait for pullback'')
      else if ratio \<ge> 5 / 10 then
        signals.extend s (assessment.fields ''slightly_bullish'' ''moderate''
          ''ATM or slightly OTM strike appropriate'')
      else if ratio \<ge> 3 / 10 then
        signals.extend s (assessment.fields ''neutral'' ''low''
          ''Good environment for covered calls'')
      else
        signals.extend s (assessment.fields ''bearish'' ''very_low''
          ''Caution: stock may decline, reducing call premium value''))"

definition technical_assessment :: "real \<Rightarrow> string \<Rightarrow> string \<Rightarrow> string \<Rightarrow> assessment" where
  "technical_assessment rsi macd_trend mas_trend volume_signal =
     classify (volume_analysis volume_signal
                (moving_average_analysis mas_trend
                  (macd_analysis macd_trend (rsi_analysis rsi))))"


section \<open>Strike selector (strategy\_tools)\<close>

text \<open>
  A formatted string is kept as the list of its pieces: literal text, \<open>str\<close> of an
  integer, \<open>{x:.nf}\<close> of a number, \<open>str(e)\<close> of a caught exception. The digits that a
  piece prints are not computed.
\<close>

datatype fragment = Lit string | Int_str int | Fixed nat real | Exc_str py_error

type_synonym ftext = "fragment list"

text \<open>
  A list comprehension \<open>[x for x in xs if p(x)]\<close> whose condition may raise: the
  condition is evaluated on the elements in order, and the first exception ends the
  comprehension.
\<close>

fun filter_exc :: "('a \<Rightarrow> py_error + bool) \<Rightarrow> 'a list \<Rightarrow> py_error + 'a list" where
  "filter_exc p [] = Inr []"
| "filter_exc p (x # xs) =
     bind_exc (p x) (\<lambda>keep.
     bind_exc (filter_exc p xs) (\<lambda>ys. Inr (if keep then x # ys else ys)))"

text \<open>\<open>min_strike <= opt.get("strike", 0) <= max_strike\<close>\<close>

definition strike_in_range :: "real \<Rightarrow> real \<Rightarrow> pydict \<Rightarrow> py_error + bool" where
  "strike_in_range min_strike max_strike opt =
     bind_exc (as_num (get_default opt ''strike'' (VNum 0))) (\<lambda>strike_n.
       Inr (min_strike \<le> strike_n \<and> strike_n \<le> max_strike))"

text \<open>
  The \<open>if/elif\<close> chain of \<open>_select_strike_based_on_technicals\<close> as a whole:
  \<open>(min_otm_pct, max_otm_pct, strategy, reason, use_layered)\<close> from the snapshot's sentiment
  and assignment risk.
\<close>

definition strike_preference :: "pyval \<Rightarrow> pyval \<Rightarrow> real \<times> real \<times> string \<times> ftext \<times> bool" where
  "strike_preference sentiment_v risk_v =
     (if sentiment_v = VStr ''oversold_bounce_risk'' \<or> sentiment_v = VStr ''oversold_with_bullish''
      then (2 / 100, 6 / 100, ''balanced'',
            [Lit ''Stock is oversold (RSI < 30) with potential bounce. Using balanced strike to hedge bounce risk.''],
            True)
      else if sentiment_v = VStr ''overbought_pullback_risk''
              \<or> sentiment_v = VStr ''overbought_with_bearish''
      then (0, 3 / 100, ''aggressive'',
            [Lit ''Stock is overbought with pullback potential. ATM strike is appropriate.''],
            False)
      else if risk_v = VStr ''high''
      then (3 / 100, 10 / 100, ''defensive'',
            [Lit ''Due to bullish momentum, recommending a higher strike to reduce assignment risk while still collecting premium.''],
            False)
      else if risk_v = VStr ''moderate''
      then (1 / 100, 5 / 100, ''balanced'',
            [Lit ''With mixed technical signals, recommending a slightly OTM strike for balanced risk/reward.''],
            True)
      else (0, 3 / 100, ''aggressive'',
            [Lit ''With low assignment risk, recommending an ATM strike to maximize premium income.''],
            False))"

text \<open>The reason that replaces the branch's own when no option is in the preferred range.\<close>

definition expanded_reason :: "real \<Rightarrow> real \<Rightarrow> ftext" where
  "expanded_reason min_otm_pct max_otm_pct =
     [Lit ''No options in preferred range ('', Fixed 0 (min_otm_pct * 100), Lit ''-'',
      Fixed 0 (max_otm_pct * 100), Lit ''% OTM). Selecting best available option.'']"

text \<open>The dictionary returned by \<open>_select_strike_based_on_technicals\<close>.\<close>

record strike_selection =
  sel_option :: "metrics option"
  sel_strategy :: string
  sel_reason :: ftext
  sel_assignment_risk :: pyval
  sel_sentiment :: pyval
  sel_bounce_potential :: pyval
  sel_use_layered :: bool

text \<open>
  \<open>_select_strike_based_on_technicals(filtered_options, stock_price, technical_analysis)\<close>.
  The function has no \<open>try\<close>: a strike that is not a number raises out of it.
\<close>

definition select_strike_based_on_technicals ::
  "pydict list \<Rightarrow> real \<Rightarrow> pydict \<Rightarrow> py_error + strike_selection" where
  "select_strike_based_on_technicals filtered_options stock_price technical_analysis =
     (let risk_v = get_default technical_analysis ''assignment_risk'' (VStr ''moderate'');
          sentiment_v = get_default technical_analysis ''sentiment'' (VStr ''neutral'');
          bounce_v = get_default technical_analysis ''bounce_potential'' VNone
      in case strike_preference sentiment_v risk_v of
           (min_otm_pct, max_otm_pct, strategy, reason, use_layered) \<Rightarrow>
        let min_strike = stock_price * (1 + min_otm_pct);
            max_strike = stock_price * (1 + max_otm_pct)
        in bind_exc (filter_exc (strike_in_range min_strike max_strike) filtered_options)
             (\<lambda>in_range.
                let preferred_options = (if in_range = [] then filtered_options else in_range);
                    reason' = (if in_range = [] then expanded_reason min_otm_pct max_otm_pct
                               else reason)
                in Inr \<lparr> sel_option = fst (best_yield_loop stock_price preferred_options (None, - 1)),
                         sel_strategy = strategy,
                         sel_reason = reason',
                         sel_assignment_risk = risk_v,
                         sel_sentiment = sentiment_v,
                         sel_bounce_potential = bounce_v,
                         sel_use_layered = use_layered \<rparr>))"


section \<open>Layering engine (strategy\_tools)\<close>

record allocation =
  name :: string
  pct :: real
  otm_range :: "real \<times> real"

definition layer_allocations :: "pyval \<Rightarrow> pyval \<Rightarrow> allocation list" where
  "layer_allocations sentiment_v bounce_v =
     (if sentiment_v = VStr ''oversold_bounce_risk'' \<or> sentiment_v = VStr ''oversold_with_bullish''
      then [\<lparr> name = ''Conservative'', pct = 40 / 100, otm_range = (4 / 100, 8 / 100) \<rparr>,
            \<lparr> name = ''Balanced'', pct = 40 / 100, otm_range = (2 / 100, 4 / 100) \<rparr>,
            \<lparr> name = ''Aggressive'', pct = 20 / 100, otm_range = (0, 2 / 100) \<rparr>]
      else if sentiment_v = VStr ''moderate'' \<or> truthy bounce_v
      then [\<lparr> name = ''Conservative'', pct = 33 / 100, otm_range = (3 / 100, 6 / 100) \<rparr>,
            \<lparr> name = ''Balanced'', pct = 34 / 100, otm_range = (1 / 100, 3 / 100) \<rparr>,
            \<lparr> name = ''Aggressive'', pct = 33 / 100, otm_range = (0, 1 / 100) \<rparr>]
      else [\<lparr> name = ''Conservative'', pct = 30 / 100, otm_range = (3 / 100, 6 / 100) \<rparr>,
            \<lparr> name = ''Balanced'', pct = 40 / 100, otm_range = (1 / 100, 3 / 100) \<rparr>,
            \<lparr> name = ''Aggressive'', pct = 30 / 100, otm_range = (0, 1 / 100) \<rparr>])"

text \<open>\<open>int(x)\<close> of a number: the fraction is dropped, towards zero.\<close>

definition py_int :: "real \<Rightarrow> int" where
  "py_int x = (if 0 \<le> x then \<lfloor>x\<rfloor> else \<lceil>x\<rceil>)"

text \<open>\<open>max(1, int(contracts * alloc["pct"]))\<close>\<close>

definition tier_contracts :: "int \<Rightarrow> allocation \<Rightarrow> int" where
  "tier_contracts n_contracts alloc = max 1 (py_int (of_int n_contracts * pct alloc))"

record layer =
  layer_name :: string
  layer_contracts :: int
  layer_option :: metrics
  layer_premium :: real

record layered_strategy =
  layers :: "layer list"
  total_contracts :: int
  layered_total_premium :: real

text \<open>
  The \<open>for alloc in allocations\<close> loop, its state being \<open>layers\<close> and
  \<open>total_premium\<close>. A tier without a best option adds no layer.
\<close>

fun layer_loop ::
  "pydict list \<Rightarrow> real \<Rightarrow> int \<Rightarrow> allocation list \<Rightarrow> layer list \<times> real
     \<Rightarrow> py_error + layer list \<times> real" where
  "layer_loop filtered_options stock_price n_contracts [] state = Inr state"
| "layer_loop filtered_options stock_price n_contracts (alloc # rest) (built, premium_sum) =
     (let count = tier_contracts n_contracts alloc;
          min_strike = stock_price * (1 + fst (otm_range alloc));
          max_strike = stock_price * (1 + snd (otm_range alloc))
      in bind_exc (filter_exc (strike_in_range min_strike max_strike) filtered_options)
           (\<lambda>in_range.
              let range_options = (if in_range = [] then filtered_options else in_range)
              in case fst (best_yield_loop stock_price range_options (None, - 1)) of
                   None \<Rightarrow> layer_loop filtered_options stock_price n_contracts rest (built, premium_sum)
                 | Some best_in_range \<Rightarrow>
                     bind_exc (as_num (premium best_in_range)) (\<lambda>premium_n.
                       let amount = premium_n * of_int count * 100
                       in layer_loop filtered_options stock_price n_contracts rest
                            (built @ [\<lparr> layer_name = name alloc, layer_contracts = count,
                                       layer_option = best_in_range, layer_premium = amount \<rparr>],
                             premium_sum + amount))))"

text \<open>
  \<open>_create_layered_strategy(filtered_options, stock_price, shares, technical_analysis)\<close>;
  \<open>Inr None\<close> is the returned \<open>None\<close>.
\<close>

definition create_layered_strategy ::
  "pydict list \<Rightarrow> real \<Rightarrow> int \<Rightarrow> pydict \<Rightarrow> py_error + layered_strategy option" where
  "create_layered_strategy filtered_options stock_price n_shares technical_analysis =
     (let n_contracts = n_shares div 100
      in if n_contracts < 3 then Inr None
         else
           let sentiment_v = get_default technical_analysis ''sentiment'' (VStr ''neutral'');
               bounce_v = get_default technical_analysis ''bounce_potential'' VNone
           in bind_exc (layer_loop filtered_options stock_price n_contracts
                          (layer_allocations sentiment_v bounce_v) ([], 0))
                (\<lambda>(ls, premium_sum).
                   if ls = [] then Inr None
                   else Inr (Some \<lparr> layers = ls,
                                    total_contracts = sum_list (map layer_contracts ls),
                                    layered_total_premium = premium_sum \<rparr>)))"


section \<open>Option filters (options\_tools, strategy\_tools)\<close>

text \<open>
  What \<open>get_options_chain\<close> returns: the ticker, the list of option dictionaries and an
  error message or \<open>None\<close>.
\<close>

record options_data =
  chain_ticker :: string
  chain_options :: "pydict list"
  chain_error :: "string option"

text \<open>
  Truth value of \<open>d.get("error")\<close>, for a message that is a string or \<open>None\<close>, and
  the message as text.
\<close>

definition is_set :: "string option \<Rightarrow> bool" where
  "is_set msg = (case msg of None \<Rightarrow> False | Some m \<Rightarrow> m \<noteq> [])"

definition msg_text :: "string option \<Rightarrow> ftext" where
  "msg_text msg = (case msg of None \<Rightarrow> [] | Some m \<Rightarrow> [Lit m])"

text \<open>
  The condition of the comprehension in \<open>filter_options\<close>:
  \<open>min_days <= opt["days_to_expiry"] <= max_days and opt["open_interest"] >= min_open_interest
  and opt["bid"] > 0\<close>. \<open>and\<close> stops at the first false operand, so a later field
  is not read then.
\<close>

definition in_window_and_liquid :: "real \<Rightarrow> real \<Rightarrow> real \<Rightarrow> pydict \<Rightarrow> py_error + bool" where
  "in_window_and_liquid min_days max_days min_open_interest opt =
     bind_exc (getitem opt ''days_to_expiry'') (\<lambda>days_v.
     bind_exc (as_num days_v) (\<lambda>days.
       if \<not> (min_days \<le> days \<and> days \<le> max_days) then Inr False
       else
         bind_exc (getitem opt ''open_interest'') (\<lambda>interest_v.
         bind_exc (as_num interest_v) (\<lambda>interest.
           if \<not> (interest \<ge> min_open_interest) then Inr False
           else
             bind_exc (getitem opt ''bid'') (\<lambda>bid_v.
             bind_exc (as_num bid_v) (\<lambda>bid. Inr (bid > 0)))))))"

record filter_result =
  filter_ticker :: string
  filtered_options :: "pydict list"
  total_before_filter :: nat
  total_after_filter :: nat
  filter_error :: "ftext option"

text \<open>
  \<open>filter_options(options_data, min_days, max_days, min_open_interest)\<close>. An exception
  inside the comprehension is caught and reported in \<open>error\<close>.
\<close>

definition filter_options :: "options_data \<Rightarrow> real \<Rightarrow> real \<Rightarrow> real \<Rightarrow> filter_result" where
  "filter_options data min_days max_days min_open_interest =
     (if is_set (chain_error data)
      then \<lparr> filter_ticker = chain_ticker data, filtered_options = [],
             total_before_filter = 0, total_after_filter = 0,
             filter_error = Some (msg_text (chain_error data)) \<rparr>
      else case filter_exc (in_window_and_liquid min_days max_days min_open_interest)
                  (chain_options data) of
             Inl e \<Rightarrow> \<lparr> filter_ticker = chain_ticker data, filtered_options = [],
                        total_before_filter = 0, total_after_filter = 0,
                        filter_error = Some [Lit ''Error filtering options: '', Exc_str e] \<rparr>
           | Inr kept \<Rightarrow> \<lparr> filter_ticker = chain_ticker data, filtered_options = kept,
                           total_before_filter = length (chain_options data),
                           total_after_filter = length kept,
                           filter_error = None \<rparr>)"

text \<open>
  \<open>is_sane_option\<close>, the local function of \<open>run_covered_call_strategy\<close>: a bid above
  the stock price, or a bid above 20\% of it on a strike above 150\% of it, is rejected.
\<close>

definition is_sane_option :: "real \<Rightarrow> pydict \<Rightarrow> py_error + bool" where
  "is_sane_option stock_price opt =
     (let bid_v = get_default opt ''bid'' (VNum 0);
          strike_v = get_default opt ''strike'' (VNum 0)
      in bind_exc (as_num bid_v) (\<lambda>bid.
           if bid > stock_price then Inr False
           else bind_exc (as_num strike_v) (\<lambda>strike_n.
                  if strike_n > stock_price * (15 / 10) \<and> bid > stock_price * (2 / 10)
                  then Inr False
                  else Inr True)))"

text \<open>The condition of the OTM comprehension: \<open>opt.get("strike", 0) >= stock_price\<close>.\<close>

definition is_otm :: "real \<Rightarrow> pydict \<Rightarrow> py_error + bool" where
  "is_otm stock_price opt =
     bind_exc (as_num (get_default opt ''strike'' (VNum 0))) (\<lambda>strike_n.
       Inr (strike_n \<ge> stock_price))"


section \<open>Strategy orchestrator (strategy\_tools, formatting\_tools)\<close>

text \<open>\<open>format_error_message(error_type, details)\<close>\<close>

record error_message =
  error_type :: string
  message :: ftext

definition format_error_message :: "string \<Rightarrow> ftext \<Rightarrow> error_message" where
  "format_error_message kind details =
     \<lparr> error_type = kind,
       message =
         (if kind = ''invalid_ticker'' then
            [Lit ''I couldn't find the stock ticker you provided. ''] @ details
              @ [Lit '' Please check the symbol and try again.'']
          else if kind = ''no_options'' then
            [Lit ''No options are available for this stock. ''] @ details
          else if kind = ''no_liquid_options'' then
            [Lit ''No liquid options found in the 7-45 day window. ''] @ details
              @ [Lit '' Try a more actively traded stock.'']
          else if kind = ''invalid_shares'' then
            [Lit ''Invalid share count. ''] @ details
              @ [Lit '' Shares must be a positive multiple of 100 for covered calls.'']
          else if kind = ''api_error'' then
            [Lit ''There was an error fetching market data. ''] @ details
              @ [Lit '' Please try again in a moment.'']
          else if kind = ''calculation_error'' then
            [Lit ''There was an error calculating the recommendation. ''] @ details
          else [Lit ''An unexpected error occurred. ''] @ details) \<rparr>"

text \<open>
  The sections of a recommendation are kept as the renderer that prints them together with
  its arguments; their wording is not modelled.
\<close>

datatype rendering =
    Recommendation string real metrics int breakeven max_profit
  | Itm_warning real real
  | Layered_section layered_strategy real string
  | Technical_section pydict strike_selection real metrics

datatype block = Plain ftext | Rendered rendering

text \<open>What \<open>run_covered_call_strategy\<close> returns.\<close>

record strategy_result =
  formatted_text :: "block list"
  error :: "string option"

text \<open>
  The recurring \<open>error = format_error_message(...); return {...}\<close> of
  \<open>run_covered_call_strategy\<close>.
\<close>

definition failure :: "string \<Rightarrow> ftext \<Rightarrow> strategy_result" where
  "failure kind details =
     (let err = format_error_message kind details
      in \<lparr> formatted_text = [Plain (message err)], error = Some (error_type err) \<rparr>)"

text \<open>\<open>try: ... except Exception as e: ...\<close> around a step, followed by the rest.\<close>

definition try_except :: "py_error + 'a \<Rightarrow> (py_error \<Rightarrow> 'b) \<Rightarrow> ('a \<Rightarrow> 'b) \<Rightarrow> 'b" where
  "try_except m handler rest = (case m of Inl e \<Rightarrow> handler e | Inr x \<Rightarrow> rest x)"

text \<open>
  A premium that is multiplied by a count and printed as \<open>f"{v:.2f}"\<close>: a string has
  no such format, \<open>None\<close> cannot be multiplied.
\<close>

definition format_fixed :: "pyval \<Rightarrow> py_error + unit" where
  "format_fixed v = (case v of VNum x \<Rightarrow> Inr () | VStr s \<Rightarrow> Inl ValueError | VNone \<Rightarrow> Inl TypeError)"

text \<open>
  \<open>format_recommendation\<close>: everything it prints is a number in \<open>best_option\<close>,
  \<open>breakeven\<close> and \<open>max_profit\<close>, except the premium, which is multiplied by the share
  count and printed with two decimals.
\<close>

definition format_recommendation ::
  "string \<Rightarrow> real \<Rightarrow> metrics \<Rightarrow> int \<Rightarrow> breakeven \<Rightarrow> max_profit \<Rightarrow> py_error + block" where
  "format_recommendation ticker stock_price best n_shares be mp =
     bind_exc (format_fixed (premium best)) (\<lambda>_.
       Inr (Rendered (Recommendation ticker stock_price best n_shares be mp)))"

text \<open>
  \<open>format_itm_warning(strike, stock_price)\<close>, reduced to the warning that the
  orchestrator appends: none for a strike at or above the price, and none when the
  percentage cannot be computed (the exception is caught, \<open>is_itm\<close> is \<open>False\<close>).
\<close>

definition format_itm_warning :: "real \<Rightarrow> real \<Rightarrow> block option" where
  "format_itm_warning strike_n stock_price =
     (if strike_n \<ge> stock_price then None
      else case py_div (stock_price - strike_n) stock_price of
             Inl e \<Rightarrow> None
           | Inr q \<Rightarrow> Some (Rendered (Itm_warning strike_n stock_price)))"

text \<open>\<open>_format_layered_strategy\<close>: one table row per layer.\<close>

fun layer_rows :: "real \<Rightarrow> layer list \<Rightarrow> py_error + unit" where
  "layer_rows stock_price [] = Inr ()"
| "layer_rows stock_price (l # ls) =
     bind_exc (py_div (strike (layer_option l) - stock_price) stock_price) (\<lambda>q.
     bind_exc (format_fixed (premium (layer_option l))) (\<lambda>_.
       layer_rows stock_price ls))"

definition format_layered_strategy :: "layered_strategy \<Rightarrow> real \<Rightarrow> string \<Rightarrow> py_error + block" where
  "format_layered_strategy layered stock_price ticker =
     bind_exc (layer_rows stock_price (layers layered)) (\<lambda>_.
       Inr (Rendered (Layered_section layered stock_price ticker)))"

text \<open>\<open>s.replace(...)\<close> on a value: only a string has the method.\<close>

definition str_method :: "pyval \<Rightarrow> py_error + unit" where
  "str_method v = (case v of VStr s \<Rightarrow> Inr () | _ \<Rightarrow> Inl AttributeError)"

text \<open>
  \<open>_format_integrated_technical_section\<close>. The indicator sub-dictionaries that it prints
  (\<open>rsi\<close>, \<open>macd\<close>, \<open>moving_averages\<close>, \<open>volume\<close>) are not part of the snapshot here;
  they are taken as \<open>get_technical_analysis\<close> builds them, so that printing them does not
  raise.
\<close>

definition format_integrated_technical_section ::
  "pydict \<Rightarrow> strike_selection \<Rightarrow> real \<Rightarrow> metrics \<Rightarrow> py_error + block" where
  "format_integrated_technical_section analysis selection stock_price best =
     bind_exc (str_method (sel_sentiment selection)) (\<lambda>_.
     bind_exc (py_div (strike best - stock_price) stock_price) (\<lambda>q.
     bind_exc (str_method (sel_assignment_risk selection)) (\<lambda>_.
       Inr (Rendered (Technical_section analysis selection stock_price best)))))"

text \<open>
  \<open>str.strip\<close> and \<open>str.upper\<close> on ASCII text (a ticker symbol); characters outside
  ASCII are left as they are.
\<close>

definition is_space :: "char \<Rightarrow> bool" where
  "is_space c = (let n = (of_char c :: nat) in (9 \<le> n \<and> n \<le> 13) \<or> (28 \<le> n \<and> n \<le> 32))"

definition py_strip :: "string \<Rightarrow> string" where
  "py_strip s = rev (dropWhile is_space (rev (dropWhile is_space s)))"

definition upper_char :: "char \<Rightarrow> char" where
  "upper_char c = (let n = (of_char c :: nat) in if 97 \<le> n \<and> n \<le> 122 then char_of (n - 32) else c)"

definition py_upper :: "string \<Rightarrow> string" where
  "py_upper s = map upper_char s"

text \<open>
  The external collaborators: ticker validation, price source, option-chain source and
  technical analysis, each a function of the ticker. Their results have the shape of the
  dictionaries that \<open>stock_tools\<close>, \<open>options_tools\<close> and \<open>technical_tools\<close> return;
  the technical snapshot is a dictionary with \<open>error\<close>, \<open>sentiment\<close>,
  \<open>assignment_risk\<close> and \<open>bounce_potential\<close>.
\<close>

record validation =
  valid :: bool
  has_options :: bool
  validation_error :: "string option"

record price_data =
  price :: "real option"
  price_error :: "string option"

record collaborators =
  validate_ticker :: "string \<Rightarrow> validation"
  get_stock_price :: "string \<Rightarrow> price_data"
  get_options_chain :: "string \<Rightarrow> options_data"
  get_technical_analysis :: "string \<Rightarrow> pydict"

text \<open>What strike selection hands to the rest of \<open>run_covered_call_strategy\<close>.\<close>

record selection_outcome =
  chosen_option :: metrics
  chosen_selection :: strike_selection
  chosen_layers :: "layered_strategy option"

text \<open>
  Lines 356 to 398 of \<open>run_covered_call_strategy\<close>: the choice of the option, from
  \<open>find_best_option\<close> when the technical analysis failed and from the strike selector
  otherwise, and the layered strategy. \<open>Inr (Inl r)\<close> is the early \<open>return r\<close>.
\<close>

definition choose_option ::
  "pydict \<Rightarrow> pydict list \<Rightarrow> real \<Rightarrow> int \<Rightarrow> py_error + (strategy_result + selection_outcome)" where
  "choose_option technical filtered stock_price n_shares =
     (if truthy (get_default technical ''error'' VNone) then
        let best = find_best_option filtered stock_price
        in case (if found best then best_option best else None) of
             None \<Rightarrow>
               Inr (Inl (failure ''calculation_error''
                           (if is_set (best_error best) then msg_text (best_error best)
                            else [Lit ''No suitable options found.''])))
           | Some m \<Rightarrow>
               Inr (Inr \<lparr> chosen_option = m,
                          chosen_selection =
                            \<lparr> sel_option = None,
                              sel_strategy = ''standard'',
                              sel_reason =
                                [Lit ''Technical analysis unavailable. Selecting highest yield option.''],
                              sel_assignment_risk = VStr ''unknown'',
                              sel_sentiment = VStr ''unknown'',
                              sel_bounce_potential = VNone,
                              sel_use_layered = False \<rparr>,
                          chosen_layers = None \<rparr>)
      else
        bind_exc (select_strike_based_on_technicals filtered stock_price technical) (\<lambda>selection.
          case sel_option selection of
            None \<Rightarrow>
              Inr (Inl (failure ''calculation_error''
                          [Lit ''No suitable options found for current market conditions.'']))
          | Some m \<Rightarrow>
              bind_exc (if sel_use_layered selection \<and> n_shares \<ge> 300
                        then create_layered_strategy filtered stock_price n_shares technical
                        else Inr None) (\<lambda>layered.
                Inr (Inr \<lparr> chosen_option = m, chosen_selection = selection,
                           chosen_layers = layered \<rparr>))))"

text \<open>
  Lines 399 to 466: breakeven, maximum profit and the message. The layered section is
  added for a layered strategy with layers, the technical section when the technical
  analysis did not fail.
\<close>

definition present_recommendation ::
  "string \<Rightarrow> real \<Rightarrow> int \<Rightarrow> pydict \<Rightarrow> selection_outcome \<Rightarrow> py_error + strategy_result" where
  "present_recommendation clean_ticker stock_price n_shares technical outcome =
     (let best = chosen_option outcome in
      try_except (calculate_breakeven stock_price (premium best))
        (\<lambda>e. Inr (failure ''calculation_error'' [Lit ''Error calculating breakeven: '', Exc_str e]))
        (\<lambda>be.
      try_except (calculate_max_profit stock_price (strike best) (premium best) n_shares)
        (\<lambda>e. Inr (failure ''calculation_error'' [Lit ''Error calculating max profit: '', Exc_str e]))
        (\<lambda>mp.
      try_except (format_recommendation clean_ticker stock_price best n_shares be mp)
        (\<lambda>e. Inr (failure ''calculation_error''
                     [Lit ''Error formatting recommendation: '', Exc_str e]))
        (\<lambda>recommendation_text.
      let warning = (case format_itm_warning (strike best) stock_price of
                       None \<Rightarrow> [] | Some w \<Rightarrow> [w])
      in
      bind_exc (case chosen_layers outcome of
                  None \<Rightarrow> Inr []
                | Some layered \<Rightarrow>
                    if layers layered = [] then Inr []
                    else bind_exc (format_layered_strategy layered stock_price clean_ticker)
                           (\<lambda>b. Inr [b])) (\<lambda>layered_section.
      bind_exc (if truthy (get_default technical ''error'' VNone) then Inr []
                else bind_exc (format_integrated_technical_section technical
                                 (chosen_selection outcome) stock_price best)
                       (\<lambda>b. Inr [b])) (\<lambda>tech_section.
        Inr \<lparr> formatted_text = [recommendation_text] @ warning @ layered_section @ tech_section,
              error = None \<rparr>))))))"

text \<open>
  \<open>run_covered_call_strategy(ticker, shares, otm_only)\<close>, with the collaborators as a
  parameter, in three parts. First the last one, lines 343 to 466: the candidates that
  passed all filters, the technical analysis, the choice and the message. \<open>Inl e\<close> is an
  exception that leaves the function.
\<close>

definition recommend_from_candidates ::
  "collaborators \<Rightarrow> string \<Rightarrow> int \<Rightarrow> real \<Rightarrow> pydict list \<Rightarrow> py_error + strategy_result" where
  "recommend_from_candidates env clean_ticker n_shares stock_price candidates =
     (if candidates = [] then
        Inr (failure ''no_liquid_options''
               [Lit ''No options met the 7-45 day, liquidity, and moneyness criteria.''])
      else
        let technical = get_technical_analysis env clean_ticker in
        bind_exc (choose_option technical candidates stock_price n_shares) (\<lambda>chosen.
          case chosen of
            Inl early \<Rightarrow> Inr early
          | Inr outcome \<Rightarrow>
              present_recommendation clean_ticker stock_price n_shares technical outcome))"

text \<open>
  Lines 275 to 341: the option chain, the window and liquidity filter, the sanity filter
  and the OTM filter.
\<close>

definition recommend_from_chain ::
  "collaborators \<Rightarrow> string \<Rightarrow> int \<Rightarrow> bool \<Rightarrow> real \<Rightarrow> py_error + strategy_result" where
  "recommend_from_chain env clean_ticker n_shares otm_only stock_price =
     (let options_data = get_options_chain env clean_ticker in
      if is_set (chain_error options_data) then
        Inr (failure ''api_error'' (msg_text (chain_error options_data)))
      else if chain_options options_data = [] then
        Inr (failure ''no_options''
               [Lit ''No call options returned for '', Lit [CHR 0x27], Lit clean_ticker,
                Lit [CHR 0x27], Lit ''.''])
      else
      let filtered = filter_options options_data 7 45 10 in
      case filter_error filtered of
        Some details \<Rightarrow> Inr (failure ''calculation_error'' details)
      | None \<Rightarrow>
      if filtered_options filtered = [] then
        Inr (failure ''no_liquid_options''
               [Lit ''No options met the 7-45 day and liquidity criteria.''])
      else
      bind_exc (filter_exc (is_sane_option stock_price) (filtered_options filtered)) (\<lambda>sane.
      bind_exc (if otm_only then filter_exc (is_otm stock_price) sane else Inr sane) (\<lambda>candidates.
        recommend_from_candidates env clean_ticker n_shares stock_price candidates)))"

text \<open>Lines 230 to 273: the share count, the ticker and the price.\<close>

definition run_covered_call_strategy ::
  "collaborators \<Rightarrow> string \<Rightarrow> int \<Rightarrow> bool \<Rightarrow> py_error + strategy_result" where
  "run_covered_call_strategy env ticker n_shares otm_only =
     (let clean_ticker = py_upper (py_strip ticker) in
      if n_shares \<le> 0 \<or> n_shares mod 100 \<noteq> 0 then
        Inr (failure ''invalid_shares'' [Lit ''You provided '', Int_str n_shares, Lit '' shares.''])
      else
      let validation = validate_ticker env clean_ticker in
      if \<not> valid validation then
        Inr (failure ''invalid_ticker''
               (if is_set (validation_error validation) then msg_text (validation_error validation)
                else [Lit ''Ticker '', Lit [CHR 0x27], Lit clean_ticker, Lit [CHR 0x27],
                      Lit '' not found.'']))
      else if \<not> has_options validation then
        Inr (failure ''no_options''
               (if is_set (validation_error validation) then msg_text (validation_error validation)
                else [Lit ''Ticker '', Lit [CHR 0x27], Lit clean_ticker, Lit [CHR 0x27],
                      Lit '' has no options.'']))
      else
      let price_data = get_stock_price env clean_ticker in
      case (if is_set (price_error price_data) then None else price price_data) of
        None \<Rightarrow>
          Inr (failure ''api_error''
                 (if is_set (price_error price_data) then msg_text (price_error price_data)
                  else [Lit ''Could not fetch price for '', Lit [CHR 0x27], Lit clean_ticker,
                        Lit [CHR 0x27], Lit ''.'']))
      | Some stock_price \<Rightarrow>
          recommend_from_chain env clean_ticker n_shares otm_only stock_price)"


section \<open>Example inputs\<close>


text \<open>
  The fields that \<open>calculate_option_metrics\<close> reads with \<open>option[...]\<close>: strike, bid
  and days to expiry present as numbers, and an expiration present.
\<close>

definition has_num :: "pydict \<Rightarrow> string \<Rightarrow> bool" where
  "has_num d k = (case d k of Some (VNum x) \<Rightarrow> True | _ \<Rightarrow> False)"



section \<open>Notions used to state the properties\<close>






text \<open>
  Candidates by strike, bid and days to expiry (with an expiration and an open interest of
  50): the three strikes, bids and days of the repository's unit test for
  \<open>find_best_option\<close>, and a candidate with a negative bid.
\<close>

definition candidate :: "real \<Rightarrow> real \<Rightarrow> real \<Rightarrow> pydict" where
  "candidate k b d =
     [''strike'' \<mapsto> VNum k, ''bid'' \<mapsto> VNum b, ''days_to_expiry'' \<mapsto> VNum d,
      ''expiration'' \<mapsto> VStr ''2025-02-15'', ''open_interest'' \<mapsto> VNum 50]"




text \<open>
  Two candidates, 3\% and 1\% above a stock price of 100, and a snapshot with mixed signals.
\<close>

definition layer_candidates :: "pydict list" where
  "layer_candidates = [candidate 103 (6 / 5) 45, candidate 101 2 30]"

definition mixed_snapshot :: pydict where
  "mixed_snapshot =
     [''error'' \<mapsto> VNone, ''sentiment'' \<mapsto> VStr ''slightly_bullish'',
      ''assignment_risk'' \<mapsto> VStr ''moderate'', ''bounce_potential'' \<mapsto> VNone]"

text \<open>The metrics of the two candidates above at a stock price of 100.\<close>

definition metrics_103 :: metrics where
  "metrics_103 =
     \<lparr> strike = 103, expiration = VStr ''2025-02-15'', premium = VNum (6 / 5),
       premium_yield = 11650 / 10000, annualized_return = 945 / 100, is_itm = False,
       moneyness = 3, days_to_expiry = 45, open_interest = VNum 50,
       implied_volatility = VNum 0 \<rparr>"

definition metrics_101 :: metrics where
  "metrics_101 =
     \<lparr> strike = 101, expiration = VStr ''2025-02-15'', premium = VNum 2,
       premium_yield = 19802 / 10000, annualized_return = 2409 / 100, is_itm = False,
       moneyness = 1, days_to_expiry = 30, open_interest = VNum 50,
       implied_volatility = VNum 0 \<rparr>"


text \<open>
  The strike that the range filters compare, \<open>opt.get("strike", 0)\<close>, for an option
  whose strike is a number or absent; and that condition on the option. The callers of the
  strike selector have compared every strike with the stock price before.
\<close>

definition strike_or_zero :: "pydict \<Rightarrow> real" where
  "strike_or_zero opt = (case opt ''strike'' of Some (VNum k) \<Rightarrow> k | _ \<Rightarrow> 0)"

definition strike_is_number :: "pydict \<Rightarrow> bool" where
  "strike_is_number opt = (case opt ''strike'' of None \<Rightarrow> True | Some v \<Rightarrow> is_num v)"


text \<open>
  The two filters of the pipeline as functions on a list of options: the comprehension of
  \<open>filter_options\<close> with its default parameters (7 to 45 days, open interest from 10,
  a positive bid) and the OTM comprehension of \<open>run_covered_call_strategy\<close>.
\<close>

definition window_liquidity_filter :: "pydict list \<Rightarrow> py_error + pydict list" where
  "window_liquidity_filter opts = filter_exc (in_window_and_liquid 7 45 10) opts"

definition otm_filter :: "real \<Rightarrow> pydict list \<Rightarrow> py_error + pydict list" where
  "otm_filter stock_price opts = filter_exc (is_otm stock_price) opts"

text \<open>
  An option record with days to expiry, open interest and bid present as numbers and a
  strike that is a number or absent, and the two conditions on such a record.
\<close>

definition num_field :: "pydict \<Rightarrow> string \<Rightarrow> real" where
  "num_field d k = (case d k of Some (VNum x) \<Rightarrow> x | _ \<Rightarrow> 0)"

definition well_typed_option :: "pydict \<Rightarrow> bool" where
  "well_typed_option opt =
     (has_num opt ''days_to_expiry'' \<and> has_num opt ''open_interest'' \<and> has_num opt ''bid''
      \<and> strike_is_number opt)"

definition window_and_liquid :: "pydict \<Rightarrow> bool" where
  "window_and_liquid opt =
     (7 \<le> num_field opt ''days_to_expiry'' \<and> num_field opt ''days_to_expiry'' \<le> 45
      \<and> 10 \<le> num_field opt ''open_interest'' \<and> 0 < num_field opt ''bid'')"

definition otm :: "real \<Rightarrow> pydict \<Rightarrow> bool" where
  "otm stock_price opt = (stock_price \<le> strike_or_zero opt)"

text \<open>
  The five options of the repository's unit test for \<open>filter_options\<close>: only the first
  one is inside the window and liquid.
\<close>

definition listed :: "real \<Rightarrow> real \<Rightarrow> real \<Rightarrow> real \<Rightarrow> pydict" where
  "listed k d oi b =
     [''strike'' \<mapsto> VNum k, ''days_to_expiry'' \<mapsto> VNum d, ''open_interest'' \<mapsto> VNum oi,
      ''bid'' \<mapsto> VNum b]"

definition test_chain :: "pydict list" where
  "test_chain =
     [listed 100 10 50 2, listed 105 5 100 (3 / 2), listed 110 20 5 1, listed 115 30 75 0,
      listed 120 50 200 3]"


text \<open>
  The error codes of \<open>run_covered_call_strategy\<close>, and a result that is one of its
  early returns.
\<close>

definition error_kinds :: "string list" where
  "error_kinds =
     [''invalid_shares'', ''invalid_ticker'', ''no_options'', ''no_liquid_options'',
      ''api_error'', ''calculation_error'']"

definition is_failure :: "strategy_result \<Rightarrow> bool" where
  "is_failure r = (\<exists>kind details. kind \<in> set error_kinds \<and> r = failure kind details)"


text \<open>
  Collaborators for a run: a valid ticker with options, a price of 100, the two candidates
  above as the chain, and the snapshot with mixed signals.
\<close>

definition example_env :: collaborators where
  "example_env =
     \<lparr> validate_ticker = (\<lambda>t. \<lparr> valid = True, has_options = True, validation_error = None \<rparr>),
       get_stock_price = (\<lambda>t. \<lparr> price = Some 100, price_error = None \<rparr>),
       get_options_chain =
         (\<lambda>t. \<lparr> chain_ticker = t, chain_options = layer_candidates, chain_error = None \<rparr>),
       get_technical_analysis = (\<lambda>t. mixed_snapshot) \<rparr>"

definition example_layers :: layered_strategy where
  "example_layers =
     \<lparr> layers =
         [\<lparr> layer_name = ''Conservative'', layer_contracts = 3, layer_option = metrics_103,
            layer_premium = 360 \<rparr>,
          \<lparr> layer_name = ''Balanced'', layer_contracts = 4, layer_option = metrics_101,
            layer_premium = 800 \<rparr>,
          \<lparr> layer_name = ''Aggressive'', layer_contracts = 3, layer_option = metrics_101,
            layer_premium = 600 \<rparr>],
       total_contracts = 10, layered_total_premium = 1760 \<rparr>"

definition example_selection :: strike_selection where
  "example_selection =
     \<lparr> sel_option = Some metrics_101, sel_strategy = ''balanced'',
       sel_reason = [Lit ''With mixed technical signals, recommending a slightly OTM strike for balanced risk/reward.''],
       sel_assignment_risk = VStr ''moderate'', sel_sentiment = VStr ''slightly_bullish'',
       sel_bounce_potential = VNone, sel_use_layered = True \<rparr>"

text \<open>Collaborators that know no ticker.\<close>

definition offline_env :: collaborators where
  "offline_env =
     \<lparr> validate_ticker =
         (\<lambda>t. \<lparr> valid = False, has_options = False, validation_error = Some ''offline'' \<rparr>),
       get_stock_price = (\<lambda>t. \<lparr> price = None, price_error = Some ''offline'' \<rparr>),
       get_options_chain =
         (\<lambda>t. \<lparr> chain_ticker = t, chain_options = [], chain_error = Some ''offline'' \<rparr>),
       get_technical_analysis = (\<lambda>t. [''error'' \<mapsto> VStr ''offline'']) \<rparr>"


section \<open>Properties of the metrics calculator\<close>

lemma bind_exc_Inl [simp]: "bind_exc (Inl e) f = Inl e"
  by (simp add: bind_exc_def)

lemma bind_exc_Inr [simp]: "bind_exc (Inr x) f = f x"
  by (simp add: bind_exc_def)

lemma getitem_Some: "d k = Some v \<Longrightarrow> getitem d k = Inr v"
  by (simp add: getitem_def)

lemma getitem_None: "d k = None \<Longrightarrow> getitem d k = Inl (KeyError k)"
  by (simp add: getitem_def)

lemma as_num_VNum [simp]: "as_num (VNum x) = Inr x"
  by (simp add: as_num_def)


lemma py_div_zero [simp]: "py_div a 0 = Inl ZeroDivisionError"
  by (simp add: py_div_def)

lemma has_numE: "has_num d k \<Longrightarrow> \<exists>x. d k = Some (VNum x)"
  by (auto simp: has_num_def split: option.splits pyval.splits)



text \<open>
  \<open>py_round x n\<close> is a multiple of \<open>10\<^sup>-\<^sup>n\<close> and no further from \<open>x\<close> than
  half of \<open>10\<^sup>-\<^sup>n\<close>: it is \<open>x\<close> rounded to \<open>n\<close> places.
\<close>

lemma round_half_even_near: "\<bar>of_int (round_half_even x) - x\<bar> \<le> 1 / 2"
proof -
  have "of_int \<lfloor>x\<rfloor> \<le> x" and "x < of_int \<lfloor>x\<rfloor> + 1" by linarith+
  then show ?thesis
    by (auto simp: round_half_even_def Let_def)
qed

lemma py_round_near: "\<bar>py_round x n - x\<bar> \<le> 1 / (2 * 10 ^ n)"
proof -
  have pos: "(0::real) < 10 ^ n" by simp
  define r where "r = (of_int (round_half_even (x * 10 ^ n)) :: real)"
  have near: "\<bar>r - x * 10 ^ n\<bar> \<le> 1 / 2"
    unfolding r_def by (rule round_half_even_near)
  have "py_round x n - x = (r - x * 10 ^ n) / 10 ^ n"
    using pos by (simp add: py_round_def r_def field_simps)
  then have "\<bar>py_round x n - x\<bar> = \<bar>r - x * 10 ^ n\<bar> / 10 ^ n"
    using pos by (simp add: abs_divide)
  also have "\<dots> \<le> (1 / 2) / 10 ^ n"
    using near pos by (rule divide_right_mono[OF _ less_imp_le])
  finally show ?thesis by simp
qed













section \<open>Properties of find\_best\_option\<close>





















lemma metrics_candidate:
  assumes "0 < k" and "sp \<noteq> 0"
  shows "calculate_option_metrics (candidate k b d) sp =
           Inr \<lparr> strike = k, expiration = VStr ''2025-02-15'', premium = VNum b,
                 premium_yield = py_round (b / k * 100) 4,
                 annualized_return = py_round (if 0 < d then b / k * 100 / d * 365 else 0) 2,
                 is_itm = (k < sp),
                 moneyness = py_round ((k - sp) / sp * 100) 2,
                 days_to_expiry = d, open_interest = VNum 50, implied_volatility = VNum 0 \<rparr>"
  using assms
  by (simp add: calculate_option_metrics_def candidate_def getitem_def py_div_def
        get_default_def)





section \<open>Properties of the technical aggregation\<close>

lemma extend_sel:
  "bullish_signals (signals.extend s (assessment.fields a b c)) = bullish_signals s"
  "bearish_signals (signals.extend s (assessment.fields a b c)) = bearish_signals s"
  "bounce_potential (signals.extend s (assessment.fields a b c)) = bounce_potential s"
  "rsi_signal (signals.extend s (assessment.fields a b c)) = rsi_signal s"
  "sentiment (signals.extend s (assessment.fields a b c)) = a"
  "assignment_risk (signals.extend s (assessment.fields a b c)) = b"
  "recommendation (signals.extend s (assessment.fields a b c)) = c"
  by (simp_all add: signals.defs assessment.defs)

lemma classify_signals:
  "bullish_signals (classify s) = bullish_signals s"
  "bearish_signals (classify s) = bearish_signals s"
  "bounce_potential (classify s) = bounce_potential s"
  by (simp_all add: classify_def Let_def extend_sel)

lemma rsi_nonneg: "0 \<le> bullish_signals (rsi_analysis rsi) \<and> 0 \<le> bearish_signals (rsi_analysis rsi)"
  by (simp add: rsi_analysis_def)

lemma macd_nonneg:
  "0 \<le> bullish_signals s \<and> 0 \<le> bearish_signals s \<Longrightarrow>
   0 \<le> bullish_signals (macd_analysis t s) \<and> 0 \<le> bearish_signals (macd_analysis t s)"
  by (simp add: macd_analysis_def)

lemma ma_nonneg:
  "0 \<le> bullish_signals s \<and> 0 \<le> bearish_signals s \<Longrightarrow>
   0 \<le> bullish_signals (moving_average_analysis t s) \<and> 0 \<le> bearish_signals (moving_average_analysis t s)"
  by (simp add: moving_average_analysis_def)

lemma volume_nonneg:
  "0 \<le> bullish_signals s \<and> 0 \<le> bearish_signals s \<Longrightarrow>
   0 \<le> bullish_signals (volume_analysis t s) \<and> 0 \<le> bearish_signals (volume_analysis t s)"
  by (simp add: volume_analysis_def)

lemma bullish_ratio_nonneg:
  assumes "0 \<le> bullish_signals s" "0 \<le> bearish_signals s"
  shows "bullish_ratio s = (if bullish_signals s = 0 \<and> bearish_signals s = 0 then 1 / 2
                            else bullish_signals s / (bullish_signals s + bearish_signals s))"
proof -
  have "bullish_signals s + bearish_signals s > 0 \<longleftrightarrow> \<not> (bullish_signals s = 0 \<and> bearish_signals s = 0)"
    using assms by linarith
  then show ?thesis by (simp add: bullish_ratio_def Let_def)
qed

lemma classify_no_bounce:
  assumes "bounce_potential s = None"
  shows "(assignment_risk (classify s), sentiment (classify s)) =
     (if 7 / 10 \<le> bullish_ratio s then (''high'', ''bullish'')
      else if 5 / 10 \<le> bullish_ratio s then (''moderate'', ''slightly_bullish'')
      else if 3 / 10 \<le> bullish_ratio s then (''low'', ''neutral'')
      else (''very_low'', ''bearish''))"
  using assms by (simp add: classify_def Let_def extend_sel)


lemma assessment_signals:
  "0 \<le> bullish_signals (technical_assessment rsi macd_trend mas_trend volume_signal)"
  "0 \<le> bearish_signals (technical_assessment rsi macd_trend mas_trend volume_signal)"
  using volume_nonneg[OF ma_nonneg[OF macd_nonneg[OF rsi_nonneg]]]
  by (simp_all add: technical_assessment_def classify_signals)

text \<open>
  Claim C2. When the aggregation sets no bounce potential, the classification is the one
  of the bullish ratio, which is \<open>bullish / (bullish + bearish)\<close> of the two accumulated
  scores and \<open>0.5\<close> when both are zero: from \<open>0.7\<close> on the assignment risk is high and
  the sentiment bullish, from \<open>0.5\<close> on moderate and slightly bullish, from \<open>0.3\<close> on
  low and neutral, below that very low and bearish. At a ratio of \<open>0.75\<close> it is high and
  bullish.
\<close>

theorem classification_by_ratio:
  assumes "bounce_potential (technical_assessment rsi macd_trend mas_trend volume_signal) = None"
  shows "let t = technical_assessment rsi macd_trend mas_trend volume_signal;
             bullish = bullish_signals t;
             bearish = bearish_signals t;
             ratio = (if bullish = 0 \<and> bearish = 0 then 5 / 10 else bullish / (bullish + bearish))
         in (assignment_risk t, sentiment t) =
              (if 7 / 10 \<le> ratio then (''high'', ''bullish'')
               else if 5 / 10 \<le> ratio then (''moderate'', ''slightly_bullish'')
               else if 3 / 10 \<le> ratio then (''low'', ''neutral'')
               else (''very_low'', ''bearish''))
            \<and> (ratio = 75 / 100 \<longrightarrow> assignment_risk t = ''high'' \<and> sentiment t = ''bullish'')"
proof -
  define s where
    "s = volume_analysis volume_signal
           (moving_average_analysis mas_trend (macd_analysis macd_trend (rsi_analysis rsi)))"
  have t: "technical_assessment rsi macd_trend mas_trend volume_signal = classify s"
    by (simp add: technical_assessment_def s_def)
  have nn: "0 \<le> bullish_signals s" "0 \<le> bearish_signals s"
    using volume_nonneg[OF ma_nonneg[OF macd_nonneg[OF rsi_nonneg]]] by (simp_all add: s_def)
  have nb: "bounce_potential s = None" using assms by (simp add: t classify_signals)
  have ratio: "bullish_ratio s =
      (if bullish_signals s = 0 \<and> bearish_signals s = 0 then 5 / 10
       else bullish_signals s / (bullish_signals s + bearish_signals s))"
    using bullish_ratio_nonneg[OF nn] by simp
  have main: "(assignment_risk (classify s), sentiment (classify s)) =
     (if 7 / 10 \<le> bullish_ratio s then (''high'', ''bullish'')
      else if 5 / 10 \<le> bullish_ratio s then (''moderate'', ''slightly_bullish'')
      else if 3 / 10 \<le> bullish_ratio s then (''low'', ''neutral'')
      else (''very_low'', ''bearish''))"
    by (rule classify_no_bounce[OF nb])
  have special: "bullish_ratio s = 75 / 100 \<Longrightarrow>
      assignment_risk (classify s) = ''high'' \<and> sentiment (classify s) = ''bullish''"
    using main by simp
  show ?thesis
    unfolding Let_def t classify_signals ratio[symmetric]
    using main special by blast
qed

theorem classification_by_ratio_witness:
  "bounce_potential (technical_assessment 60 ''bullish'' ''bullish'' ''bearish_volume'') = None
   \<and> bullish_signals (technical_assessment 60 ''bullish'' ''bullish'' ''bearish_volume'') = 3
   \<and> bearish_signals (technical_assessment 60 ''bullish'' ''bullish'' ''bearish_volume'') = 1
   \<and> assignment_risk (technical_assessment 60 ''bullish'' ''bullish'' ''bearish_volume'') = ''high''
   \<and> sentiment (technical_assessment 60 ''bullish'' ''bullish'' ''bearish_volume'') = ''bullish''"
proof -
  let ?t = "technical_assessment 60 ''bullish'' ''bullish'' ''bearish_volume''"
  have sig: "bounce_potential ?t = None" "bullish_signals ?t = 3" "bearish_signals ?t = 1"
    by (simp_all add: technical_assessment_def classify_signals volume_analysis_def
          moving_average_analysis_def macd_analysis_def rsi_analysis_def)
  have "assignment_risk ?t = ''high'' \<and> sentiment ?t = ''bullish''"
    using classification_by_ratio[OF sig(1)] unfolding Let_def sig by simp
  then show ?thesis using sig by simp
qed



section \<open>Properties of the layering engine\<close>














lemma strike_in_range_candidate:
  "strike_in_range lo hi (candidate k b d) = Inr (lo \<le> k \<and> k \<le> hi)"
  by (simp add: strike_in_range_def candidate_def get_default_def)

lemma candidate_returns:
  "calculate_option_metrics (candidate 103 (6 / 5) 45) 100 = Inr metrics_103"
  "calculate_option_metrics (candidate 101 2 30) 100 = Inr metrics_101"
  by (simp_all add: metrics_candidate py_round_def round_half_even_def Let_def
        metrics_103_def metrics_101_def)

lemma layered_example:
  "create_layered_strategy layer_candidates 100 1000 mixed_snapshot =
     Inr (Some \<lparr> layers =
        [\<lparr> layer_name = ''Conservative'', layer_contracts = 3, layer_option = metrics_103,
           layer_premium = 360 \<rparr>,
         \<lparr> layer_name = ''Balanced'', layer_contracts = 4, layer_option = metrics_101,
           layer_premium = 800 \<rparr>,
         \<lparr> layer_name = ''Aggressive'', layer_contracts = 3, layer_option = metrics_101,
           layer_premium = 600 \<rparr>],
        total_contracts = 10, layered_total_premium = 1760 \<rparr>)"
  by (simp add: create_layered_strategy_def layer_allocations_def mixed_snapshot_def
      get_default_def layer_candidates_def tier_contracts_def py_int_def truthy_def
      strike_in_range_candidate candidate_returns Let_def)
     (simp add: metrics_103_def metrics_101_def)



section \<open>Properties of the strike selector\<close>

lemma filter_exc_total:
  "\<forall>x\<in>set xs. p x = Inr (q x) \<Longrightarrow> filter_exc p xs = Inr (filter q xs)"
  by (induction xs) simp_all






lemma select_example:
  "select_strike_based_on_technicals layer_candidates 100 mixed_snapshot =
     Inr \<lparr> sel_option = Some metrics_101, sel_strategy = ''balanced'',
           sel_reason = [Lit ''With mixed technical signals, recommending a slightly OTM strike for balanced risk/reward.''],
           sel_assignment_risk = VStr ''moderate'', sel_sentiment = VStr ''slightly_bullish'',
           sel_bounce_potential = VNone, sel_use_layered = True \<rparr>"
  by (simp add: select_strike_based_on_technicals_def strike_preference_def mixed_snapshot_def
      get_default_def layer_candidates_def strike_in_range_candidate candidate_returns Let_def)
     (simp add: metrics_103_def metrics_101_def)



section \<open>Properties of the option filters\<close>

lemma filter_exc_kept:
  "filter_exc p xs = Inr ys \<Longrightarrow> \<forall>y\<in>set ys. p y = Inr True"
proof (induction xs arbitrary: ys)
  case Nil
  then show ?case by simp
next
  case (Cons x xs)
  from Cons.prems obtain keep where k: "p x = Inr keep"
    by (cases "p x") simp_all
  from Cons.prems k obtain zs where z: "filter_exc p xs = Inr zs"
    by (cases "filter_exc p xs") simp_all
  have ys: "ys = (if keep then x # zs else zs)" using Cons.prems k z by simp
  show ?case using Cons.IH[OF z] k ys by auto
qed

lemma filter_exc_all_true:
  "\<forall>y\<in>set ys. p y = Inr True \<Longrightarrow> filter_exc p ys = Inr ys"
  by (induction ys) simp_all

lemma filter_exc_idempotent: "bind_exc (filter_exc p xs) (filter_exc p) = filter_exc p xs"
proof (cases "filter_exc p xs")
  case (Inl e)
  then show ?thesis by simp
next
  case (Inr ys)
  then show ?thesis using filter_exc_all_true[OF filter_exc_kept[OF Inr]] by simp
qed

lemma in_window_and_liquid_typed:
  assumes "well_typed_option opt"
  shows "in_window_and_liquid 7 45 10 opt = Inr (window_and_liquid opt)"
proof -
  from assms obtain d oi b where f: "opt ''days_to_expiry'' = Some (VNum d)"
      "opt ''open_interest'' = Some (VNum oi)" "opt ''bid'' = Some (VNum b)"
    unfolding well_typed_option_def by (auto dest!: has_numE)
  show ?thesis
    using f by (auto simp: in_window_and_liquid_def window_and_liquid_def num_field_def
                  getitem_Some)
qed

lemma is_otm_typed:
  assumes "well_typed_option opt"
  shows "is_otm stock_price opt = Inr (otm stock_price opt)"
  using assms
  by (auto simp: well_typed_option_def strike_is_number_def is_otm_def otm_def
        strike_or_zero_def get_default_def is_num_def split: option.splits pyval.splits)

lemma window_liquidity_filter_typed:
  assumes "\<forall>opt\<in>set opts. well_typed_option opt"
  shows "window_liquidity_filter opts = Inr (filter window_and_liquid opts)"
  unfolding window_liquidity_filter_def
  using assms by (intro filter_exc_total) (simp add: in_window_and_liquid_typed)

lemma otm_filter_typed:
  assumes "\<forall>opt\<in>set opts. well_typed_option opt"
  shows "otm_filter stock_price opts = Inr (filter (otm stock_price) opts)"
  unfolding otm_filter_def
  using assms by (intro filter_exc_total) (simp add: is_otm_typed)

text \<open>
  Claim C8. On a list of option records whose days to expiry, open interest and bid are
  numbers and whose strike is a number (or absent), the window and liquidity filter followed
  by the OTM filter keeps the same options, in the same order, as the OTM filter followed by
  the window and liquidity filter: those that satisfy both conditions. \<open>filter_options\<close>
  returns the options inside the window that are liquid. Each filter applied to its own
  result returns that result, on every list.
\<close>

theorem filters_commute:
  assumes "\<forall>opt\<in>set opts. well_typed_option opt"
  shows "bind_exc (window_liquidity_filter opts) (otm_filter stock_price)
           = Inr (filter (\<lambda>opt. window_and_liquid opt \<and> otm stock_price opt) opts)
         \<and> bind_exc (otm_filter stock_price opts) window_liquidity_filter
           = Inr (filter (\<lambda>opt. window_and_liquid opt \<and> otm stock_price opt) opts)
         \<and> filtered_options
              (filter_options \<lparr> chain_ticker = t, chain_options = opts, chain_error = None \<rparr>
                 7 45 10)
           = filter window_and_liquid opts
         \<and> (\<forall>xs. bind_exc (window_liquidity_filter xs) window_liquidity_filter
                    = window_liquidity_filter xs)
         \<and> (\<forall>xs. bind_exc (otm_filter stock_price xs) (otm_filter stock_price)
                    = otm_filter stock_price xs)"
proof (intro conjI allI)
  have w: "window_liquidity_filter opts = Inr (filter window_and_liquid opts)"
    by (rule window_liquidity_filter_typed[OF assms])
  have o: "otm_filter stock_price opts = Inr (filter (otm stock_price) opts)"
    by (rule otm_filter_typed[OF assms])
  have w': "window_liquidity_filter (filter (otm stock_price) opts)
              = Inr (filter window_and_liquid (filter (otm stock_price) opts))"
    by (rule window_liquidity_filter_typed) (use assms in simp)
  have o': "otm_filter stock_price (filter window_and_liquid opts)
              = Inr (filter (otm stock_price) (filter window_and_liquid opts))"
    by (rule otm_filter_typed) (use assms in simp)
  show "bind_exc (window_liquidity_filter opts) (otm_filter stock_price)
           = Inr (filter (\<lambda>opt. window_and_liquid opt \<and> otm stock_price opt) opts)"
    by (simp add: w o')
  have "filter (\<lambda>x. otm stock_price x \<and> window_and_liquid x) opts
          = filter (\<lambda>opt. window_and_liquid opt \<and> otm stock_price opt) opts"
    by (rule filter_cong) auto
  then show "bind_exc (otm_filter stock_price opts) window_liquidity_filter
           = Inr (filter (\<lambda>opt. window_and_liquid opt \<and> otm stock_price opt) opts)"
    by (simp add: o w')
  show "filtered_options
              (filter_options \<lparr> chain_ticker = t, chain_options = opts, chain_error = None \<rparr>
                 7 45 10)
           = filter window_and_liquid opts"
    using w by (simp add: filter_options_def is_set_def window_liquidity_filter_def)
  show "bind_exc (window_liquidity_filter xs) window_liquidity_filter
          = window_liquidity_filter xs" for xs
    unfolding window_liquidity_filter_def
    using filter_exc_idempotent[of "in_window_and_liquid 7 45 10" xs] by (simp add: bind_exc_def)
  show "bind_exc (otm_filter stock_price xs) (otm_filter stock_price)
          = otm_filter stock_price xs" for xs
    unfolding otm_filter_def
    using filter_exc_idempotent[of "is_otm stock_price" xs] by (simp add: bind_exc_def)
qed

theorem filters_commute_witness:
  "map well_typed_option test_chain = [True, True, True, True, True]
   \<and> bind_exc (window_liquidity_filter test_chain) (otm_filter 100) = Inr [listed 100 10 50 2]
   \<and> bind_exc (otm_filter 100 test_chain) window_liquidity_filter = Inr [listed 100 10 50 2]
   \<and> filtered_options
        (filter_options \<lparr> chain_ticker = ''TEST'', chain_options = test_chain, chain_error = None \<rparr>
           7 45 10) = [listed 100 10 50 2]"
proof -
  have wt: "\<forall>opt\<in>set test_chain. well_typed_option opt"
    by (simp add: test_chain_def listed_def well_typed_option_def has_num_def
          strike_is_number_def is_num_def)
  have both: "filter (\<lambda>opt. window_and_liquid opt \<and> otm 100 opt) test_chain
                = [listed 100 10 50 2]"
    by (simp add: test_chain_def listed_def window_and_liquid_def otm_def num_field_def
          strike_or_zero_def)
  have one: "filter window_and_liquid test_chain = [listed 100 10 50 2]"
    by (simp add: test_chain_def listed_def window_and_liquid_def num_field_def)
  have wt': "map well_typed_option test_chain = [True, True, True, True, True]"
    by (simp add: test_chain_def listed_def well_typed_option_def has_num_def
          strike_is_number_def is_num_def)
  show ?thesis
    using filters_commute[OF wt, of 100 "''TEST''"] wt' both one by simp
qed


section \<open>Properties of the strategy orchestrator\<close>

lemma failure_fields:
  "error (failure kind details) = Some kind"
  "formatted_text (failure kind details) = [Plain (message (format_error_message kind details))]"
  by (simp_all add: failure_def Let_def format_error_message_def)

lemma try_except_Inl [simp]: "try_except (Inl e) h k = h e"
  by (simp add: try_except_def)

lemma try_except_Inr [simp]: "try_except (Inr x) h k = k x"
  by (simp add: try_except_def)

lemma bind_exc_InrD: "bind_exc m f = Inr y \<Longrightarrow> \<exists>x. m = Inr x \<and> f x = Inr y"
  by (cases m) simp_all

lemma format_recommendation_block:
  "format_recommendation tk sp best sh be mp = Inr b \<Longrightarrow>
     b = Rendered (Recommendation tk sp best sh be mp)"
  by (auto simp: format_recommendation_def dest!: bind_exc_InrD)

lemma format_itm_warning_block:
  "format_itm_warning k sp = Some b \<Longrightarrow> b = Rendered (Itm_warning k sp)"
  by (auto simp: format_itm_warning_def split: if_splits sum.splits)

lemma format_layered_block:
  "format_layered_strategy layered sp tk = Inr b \<Longrightarrow> b = Rendered (Layered_section layered sp tk)"
  by (auto simp: format_layered_strategy_def dest!: bind_exc_InrD)

lemma format_technical_block:
  "format_integrated_technical_section ta sel sp best = Inr b \<Longrightarrow>
     b = Rendered (Technical_section ta sel sp best)"
  by (auto simp: format_integrated_technical_section_def dest!: bind_exc_InrD)

lemma is_failureI: "kind \<in> set error_kinds \<Longrightarrow> is_failure (failure kind details)"
  unfolding is_failure_def by blast

lemma calculation_failure: "is_failure (failure ''calculation_error'' details)"
  by (rule is_failureI) (simp add: error_kinds_def)

lemma is_failure_error: "is_failure r \<Longrightarrow> error r \<in> Some ` set error_kinds"
  unfolding is_failure_def by (auto simp: failure_fields(1))

lemma is_failure_text: "is_failure r \<Longrightarrow> Rendered b \<notin> set (formatted_text r)"
  unfolding is_failure_def by (auto simp: failure_fields(2))

lemma present_recommendation_result:
  assumes "present_recommendation tk sp sh ta outcome = Inr r"
  shows "is_failure r
         \<or> (error r = None
            \<and> (\<forall>layered sp' tk'. Rendered (Layered_section layered sp' tk') \<in> set (formatted_text r)
                   \<longrightarrow> chosen_layers outcome = Some layered \<and> sp' = sp \<and> tk' = tk))"
proof -
  let ?best = "chosen_option outcome"
  show ?thesis
  proof (cases "calculate_breakeven sp (premium ?best)")
    case (Inl e)
    then have "r = failure ''calculation_error'' [Lit ''Error calculating breakeven: '', Exc_str e]"
      using assms by (simp add: present_recommendation_def Let_def)
    then show ?thesis using calculation_failure by simp
  next
    case be: (Inr be)
    show ?thesis
    proof (cases "calculate_max_profit sp (strike ?best) (premium ?best) sh")
      case (Inl e)
      then have "r = failure ''calculation_error'' [Lit ''Error calculating max profit: '', Exc_str e]"
        using assms be by (simp add: present_recommendation_def Let_def)
      then show ?thesis using calculation_failure by simp
    next
      case mp: (Inr mp)
      show ?thesis
      proof (cases "format_recommendation tk sp ?best sh be mp")
        case (Inl e)
        then have "r = failure ''calculation_error''
                         [Lit ''Error formatting recommendation: '', Exc_str e]"
          using assms be mp by (simp add: present_recommendation_def Let_def)
        then show ?thesis using calculation_failure by simp
      next
        case rc: (Inr rec_block)
        have rb: "rec_block = Rendered (Recommendation tk sp ?best sh be mp)"
          by (rule format_recommendation_block[OF rc])
        define warning where
          "warning = (case format_itm_warning (strike ?best) sp of None \<Rightarrow> [] | Some w \<Rightarrow> [w])"
        from assms be mp rc obtain ls ts where
          ls: "(case chosen_layers outcome of
                  None \<Rightarrow> Inr []
                | Some layered \<Rightarrow>
                    if layers layered = [] then Inr []
                    else bind_exc (format_layered_strategy layered sp tk) (\<lambda>b. Inr [b])) = Inr ls"
          and ts: "(if truthy (get_default ta ''error'' VNone) then Inr []
                else bind_exc (format_integrated_technical_section ta
                                 (chosen_selection outcome) sp ?best)
                       (\<lambda>b. Inr [b])) = Inr ts"
          and r: "r = \<lparr> formatted_text = [rec_block] @ warning @ ls @ ts, error = None \<rparr>"
          unfolding warning_def
          by (auto simp: present_recommendation_def Let_def dest!: bind_exc_InrD)
        have lsf: "ls = [] \<or> (\<exists>layered. chosen_layers outcome = Some layered
                        \<and> ls = [Rendered (Layered_section layered sp tk)])"
          using ls by (auto split: option.splits if_splits dest!: bind_exc_InrD format_layered_block)
        have tsf: "ts = [] \<or> ts = [Rendered (Technical_section ta (chosen_selection outcome) sp ?best)]"
          using ts by (auto split: if_splits dest!: bind_exc_InrD format_technical_block)
        have wf: "warning = [] \<or> warning = [Rendered (Itm_warning (strike ?best) sp)]"
          unfolding warning_def
          by (auto split: option.splits dest!: format_itm_warning_block)
        have "error r = None" using r by simp
        moreover have "\<forall>layered sp' tk'. Rendered (Layered_section layered sp' tk') \<in> set (formatted_text r)
                   \<longrightarrow> chosen_layers outcome = Some layered \<and> sp' = sp \<and> tk' = tk"
          using r rb lsf tsf wf by auto
        ultimately show ?thesis by blast
      qed
    qed
  qed
qed

lemma choose_option_early:
  assumes "choose_option ta cands sp sh = Inr (Inl early)"
  shows "is_failure early"
proof (cases "truthy (get_default ta ''error'' VNone)")
  case True
  then have "\<exists>details. early = failure ''calculation_error'' details"
    using assms by (auto simp: choose_option_def Let_def split: option.splits if_splits)
  then show ?thesis using calculation_failure by auto
next
  case False
  then obtain sel where sel: "select_strike_based_on_technicals cands sp ta = Inr sel"
    using assms by (auto simp: choose_option_def dest!: bind_exc_InrD)
  show ?thesis
  proof (cases "sel_option sel")
    case None
    then have "\<exists>details. early = failure ''calculation_error'' details"
      using assms False sel by (auto simp: choose_option_def)
    then show ?thesis using calculation_failure by auto
  next
    case (Some m)
    then show ?thesis using assms False sel
      by (auto simp: choose_option_def dest!: bind_exc_InrD)
  qed
qed

lemma choose_option_layers:
  assumes "choose_option ta cands sp sh = Inr (Inr outcome)"
    and "chosen_layers outcome \<noteq> None"
  shows "select_strike_based_on_technicals cands sp ta = Inr (chosen_selection outcome)
         \<and> sel_use_layered (chosen_selection outcome) \<and> 300 \<le> sh
         \<and> create_layered_strategy cands sp sh ta = Inr (chosen_layers outcome)"
proof (cases "truthy (get_default ta ''error'' VNone)")
  case True
  then show ?thesis using assms
    by (auto simp: choose_option_def Let_def split: option.splits if_splits)
next
  case False
  then obtain sel where sel: "select_strike_based_on_technicals cands sp ta = Inr sel"
    using assms by (auto simp: choose_option_def dest!: bind_exc_InrD)
  show ?thesis
  proof (cases "sel_option sel")
    case None
    then show ?thesis using assms False sel by (auto simp: choose_option_def)
  next
    case (Some m)
    from assms(1) False sel Some obtain layered where
      l: "(if sel_use_layered sel \<and> sh \<ge> 300 then create_layered_strategy cands sp sh ta
           else Inr None) = Inr layered"
      and o: "outcome = \<lparr> chosen_option = m, chosen_selection = sel, chosen_layers = layered \<rparr>"
      by (auto simp: choose_option_def dest!: bind_exc_InrD)
    have "layered \<noteq> None" using assms(2) o by simp
    then show ?thesis using l o sel by (auto split: if_splits)
  qed
qed

lemma recommend_from_candidates_result:
  assumes "recommend_from_candidates env tk sh sp cands = Inr r"
  shows "is_failure r
         \<or> (\<exists>outcome. choose_option (get_technical_analysis env tk) cands sp sh
                          = Inr (Inr outcome)
               \<and> present_recommendation tk sp sh (get_technical_analysis env tk) outcome = Inr r
               \<and> error r = None)"
proof (cases "cands = []")
  case True
  then have "r = failure ''no_liquid_options''
                   [Lit ''No options met the 7-45 day, liquidity, and moneyness criteria.'']"
    using assms by (simp add: recommend_from_candidates_def)
  moreover have "''no_liquid_options'' \<in> set error_kinds" by (simp add: error_kinds_def)
  ultimately show ?thesis using is_failureI by simp
next
  case False
  then obtain chosen where c: "choose_option (get_technical_analysis env tk) cands sp sh = Inr chosen"
    using assms by (auto simp: recommend_from_candidates_def Let_def dest!: bind_exc_InrD)
  show ?thesis
  proof (cases chosen)
    case (Inl early)
    then have "r = early" using assms False c by (simp add: recommend_from_candidates_def Let_def)
    then show ?thesis using choose_option_early c Inl by blast
  next
    case (Inr outcome)
    then have p: "present_recommendation tk sp sh (get_technical_analysis env tk) outcome = Inr r"
      using assms False c by (simp add: recommend_from_candidates_def Let_def)
    from present_recommendation_result[OF p] show ?thesis
      using c Inr p by blast
  qed
qed

lemma recommend_from_chain_result:
  assumes "recommend_from_chain env tk sh otm_only sp = Inr r"
  shows "is_failure r \<or> (\<exists>cands. recommend_from_candidates env tk sh sp cands = Inr r)"
proof -
  let ?data = "get_options_chain env tk"
  let ?filtered = "filter_options ?data 7 45 10"
  have kinds: "''api_error'' \<in> set error_kinds" "''no_options'' \<in> set error_kinds"
    "''calculation_error'' \<in> set error_kinds" "''no_liquid_options'' \<in> set error_kinds"
    by (simp_all add: error_kinds_def)
  show ?thesis
  proof (cases "is_set (chain_error ?data)")
    case True
    then have "r = failure ''api_error'' (msg_text (chain_error ?data))"
      using assms by (simp add: recommend_from_chain_def Let_def)
    then show ?thesis using is_failureI[OF kinds(1)] by simp
  next
    case noerr: False
    show ?thesis
    proof (cases "chain_options ?data = []")
      case True
      then have "r = failure ''no_options''
                       [Lit ''No call options returned for '', Lit [CHR 0x27], Lit tk,
                        Lit [CHR 0x27], Lit ''.'']"
        using assms noerr by (simp add: recommend_from_chain_def Let_def)
      then show ?thesis using is_failureI[OF kinds(2)] by simp
    next
      case some: False
      show ?thesis
      proof (cases "filter_error ?filtered")
        case (Some details)
        then have "r = failure ''calculation_error'' details"
          using assms noerr some by (simp add: recommend_from_chain_def Let_def)
        then show ?thesis using is_failureI[OF kinds(3)] by simp
      next
        case None
        show ?thesis
        proof (cases "filtered_options ?filtered = []")
          case True
          then have "r = failure ''no_liquid_options''
                           [Lit ''No options met the 7-45 day and liquidity criteria.'']"
            using assms noerr some None by (simp add: recommend_from_chain_def Let_def)
          then show ?thesis using is_failureI[OF kinds(4)] by simp
        next
          case False
          then have "\<exists>cands. recommend_from_candidates env tk sh sp cands = Inr r"
            using assms noerr some None
            by (auto simp: recommend_from_chain_def Let_def dest!: bind_exc_InrD)
          then show ?thesis by blast
        qed
      qed
    qed
  qed
qed

lemma run_invalid_shares:
  assumes "sh \<le> 0 \<or> sh mod 100 \<noteq> 0"
  shows "run_covered_call_strategy env ticker sh otm_only =
           Inr (failure ''invalid_shares'' [Lit ''You provided '', Int_str sh, Lit '' shares.''])"
  using assms by (simp add: run_covered_call_strategy_def Let_def)

lemma run_result:
  assumes "run_covered_call_strategy env ticker sh otm_only = Inr r"
  shows "is_failure r
         \<or> (\<exists>sp. recommend_from_chain env (py_upper (py_strip ticker)) sh otm_only sp = Inr r)"
proof -
  let ?tk = "py_upper (py_strip ticker)"
  let ?v = "validate_ticker env ?tk"
  let ?p = "get_stock_price env ?tk"
  have kinds: "''invalid_shares'' \<in> set error_kinds" "''invalid_ticker'' \<in> set error_kinds"
    "''no_options'' \<in> set error_kinds" "''api_error'' \<in> set error_kinds"
    by (simp_all add: error_kinds_def)
  show ?thesis
  proof (cases "sh \<le> 0 \<or> sh mod 100 \<noteq> 0")
    case True
    then have "r = failure ''invalid_shares'' [Lit ''You provided '', Int_str sh, Lit '' shares.'']"
      using assms run_invalid_shares[OF True, of env ticker otm_only] by simp
    then show ?thesis using is_failureI[OF kinds(1)] by simp
  next
    case shares_ok: False
    show ?thesis
    proof (cases "valid ?v")
      case False
      then have "\<exists>details. r = failure ''invalid_ticker'' details"
        using assms shares_ok by (auto simp: run_covered_call_strategy_def Let_def)
      then show ?thesis using is_failureI[OF kinds(2)] by auto
    next
      case valid: True
      show ?thesis
      proof (cases "has_options ?v")
        case False
        then have "\<exists>details. r = failure ''no_options'' details"
          using assms shares_ok valid by (auto simp: run_covered_call_strategy_def Let_def)
        then show ?thesis using is_failureI[OF kinds(3)] by auto
      next
        case opts: True
        show ?thesis
        proof (cases "if is_set (price_error ?p) then None else price ?p")
          case None
          then have "\<exists>details. r = failure ''api_error'' details"
            using assms shares_ok valid opts
            by (auto simp: run_covered_call_strategy_def Let_def)
          then show ?thesis using is_failureI[OF kinds(4)] by auto
        next
          case (Some sp)
          then have "recommend_from_chain env ?tk sh otm_only sp = Inr r"
            using assms shares_ok valid opts
            by (auto simp: run_covered_call_strategy_def Let_def)
          then show ?thesis by blast
        qed
      qed
    qed
  qed
qed

lemma run_result_cases:
  assumes "run_covered_call_strategy env ticker sh otm_only = Inr r"
  shows "is_failure r
         \<or> (\<exists>sp cands outcome.
               choose_option (get_technical_analysis env (py_upper (py_strip ticker))) cands sp sh
                 = Inr (Inr outcome)
               \<and> present_recommendation (py_upper (py_strip ticker)) sp sh
                   (get_technical_analysis env (py_upper (py_strip ticker))) outcome = Inr r
               \<and> error r = None)"
proof -
  from run_result[OF assms] show ?thesis
  proof
    assume "is_failure r" then show ?thesis by (rule disjI1)
  next
    assume "\<exists>sp. recommend_from_chain env (py_upper (py_strip ticker)) sh otm_only sp = Inr r"
    then obtain sp where
      "recommend_from_chain env (py_upper (py_strip ticker)) sh otm_only sp = Inr r" by (rule exE)
    from recommend_from_chain_result[OF this] show ?thesis
    proof
      assume "is_failure r" then show ?thesis by (rule disjI1)
    next
      assume "\<exists>cands. recommend_from_candidates env (py_upper (py_strip ticker)) sh sp cands = Inr r"
      then obtain cands where
        "recommend_from_candidates env (py_upper (py_strip ticker)) sh sp cands = Inr r"
        by (rule exE)
      from recommend_from_candidates_result[OF this] show ?thesis by blast
    qed
  qed
qed

lemma run_layered_section:
  assumes "run_covered_call_strategy env ticker sh otm_only = Inr r"
    and "Rendered (Layered_section layered sp tk) \<in> set (formatted_text r)"
  shows "300 \<le> sh
         \<and> (\<exists>cands ta sel. select_strike_based_on_technicals cands sp ta = Inr sel
                \<and> sel_use_layered sel
                \<and> create_layered_strategy cands sp sh ta = Inr (Some layered))"
proof -
  have nf: "\<not> is_failure r" using assms(2) is_failure_text by blast
  from run_result_cases[OF assms(1)] nf obtain sp' cands outcome where
    c: "choose_option (get_technical_analysis env (py_upper (py_strip ticker))) cands sp' sh
          = Inr (Inr outcome)"
    and p: "present_recommendation (py_upper (py_strip ticker)) sp' sh
              (get_technical_analysis env (py_upper (py_strip ticker))) outcome = Inr r"
    by blast
  from present_recommendation_result[OF p] nf assms(2)
  have l: "chosen_layers outcome = Some layered" and sp: "sp = sp'" by blast+
  from choose_option_layers[OF c] l show ?thesis unfolding sp by auto
qed

text \<open>
  Claim C5. The layered strategy is computed only when the strike selection set
  \<open>use_layered\<close> and the position has at least 300 shares: an outcome of the choice that
  carries a layered strategy, and a result of \<open>run_covered_call_strategy\<close> whose text has
  a layered section, come from a selection with \<open>use_layered\<close>, from 300 shares or more
  and from \<open>_create_layered_strategy\<close>. With fewer than 3 contracts, as with 200
  shares, \<open>_create_layered_strategy\<close> returns no strategy.
\<close>

theorem layering_gate:
  "(choose_option technical candidates stock_price n_shares = Inr (Inr outcome)
      \<and> chosen_layers outcome \<noteq> None
      \<longrightarrow> select_strike_based_on_technicals candidates stock_price technical
            = Inr (chosen_selection outcome)
          \<and> sel_use_layered (chosen_selection outcome) \<and> 300 \<le> n_shares
          \<and> create_layered_strategy candidates stock_price n_shares technical
              = Inr (chosen_layers outcome))
   \<and> (run_covered_call_strategy env ticker n_shares otm_only = Inr r
        \<and> Rendered (Layered_section layered stock_price tk) \<in> set (formatted_text r)
      \<longrightarrow> 300 \<le> n_shares
          \<and> (\<exists>cands ta sel. select_strike_based_on_technicals cands stock_price ta = Inr sel
                 \<and> sel_use_layered sel
                 \<and> create_layered_strategy cands stock_price n_shares ta = Inr (Some layered)))
   \<and> (n_shares div 100 < 3
      \<longrightarrow> create_layered_strategy candidates stock_price n_shares technical = Inr None)
   \<and> create_layered_strategy candidates stock_price 200 technical = Inr None"
proof (intro conjI impI)
  assume a: "choose_option technical candidates stock_price n_shares = Inr (Inr outcome)
      \<and> chosen_layers outcome \<noteq> None"
  from choose_option_layers[of technical candidates stock_price n_shares outcome] a
  show "select_strike_based_on_technicals candidates stock_price technical
            = Inr (chosen_selection outcome)"
    and "sel_use_layered (chosen_selection outcome)" and "300 \<le> n_shares"
    and "create_layered_strategy candidates stock_price n_shares technical
              = Inr (chosen_layers outcome)"
    by blast+
next
  assume "run_covered_call_strategy env ticker n_shares otm_only = Inr r
        \<and> Rendered (Layered_section layered stock_price tk) \<in> set (formatted_text r)"
  then show "300 \<le> n_shares"
    and "\<exists>cands ta sel. select_strike_based_on_technicals cands stock_price ta = Inr sel
                 \<and> sel_use_layered sel
                 \<and> create_layered_strategy cands stock_price n_shares ta = Inr (Some layered)"
    using run_layered_section by blast+
next
  assume "n_shares div 100 < 3"
  then show "create_layered_strategy candidates stock_price n_shares technical = Inr None"
    by (simp add: create_layered_strategy_def)
next
  show "create_layered_strategy candidates stock_price 200 technical = Inr None"
    by (simp add: create_layered_strategy_def)
qed

text \<open>
  Claim C9. A share count that is not a positive multiple of 100 is answered with
  \<open>invalid_shares\<close> and a text that mentions only the share count, whatever the ticker
  and the collaborators are; and the error code of every result is \<open>None\<close> or one of
  \<open>invalid_shares\<close>, \<open>invalid_ticker\<close>, \<open>no_options\<close>, \<open>no_liquid_options\<close>,
  \<open>api_error\<close>, \<open>calculation_error\<close>.
\<close>

theorem run_error_codes:
  "(n_shares \<le> 0 \<or> n_shares mod 100 \<noteq> 0 \<longrightarrow>
      run_covered_call_strategy env ticker n_shares otm_only =
        Inr \<lparr> formatted_text =
                [Plain [Lit ''Invalid share count. '', Lit ''You provided '', Int_str n_shares,
                        Lit '' shares.'',
                        Lit '' Shares must be a positive multiple of 100 for covered calls.'']],
              error = Some ''invalid_shares'' \<rparr>
      \<and> run_covered_call_strategy env' ticker' n_shares otm_only'
          = run_covered_call_strategy env ticker n_shares otm_only)
   \<and> (run_covered_call_strategy env ticker n_shares otm_only = Inr r \<longrightarrow>
        error r \<in> {Some ''invalid_shares'', Some ''invalid_ticker'', Some ''no_options'',
                    Some ''no_liquid_options'', Some ''api_error'', Some ''calculation_error'',
                    None})"
proof (intro conjI impI)
  assume bad: "n_shares \<le> 0 \<or> n_shares mod 100 \<noteq> 0"
  have shape: "failure ''invalid_shares'' [Lit ''You provided '', Int_str n_shares, Lit '' shares.'']
      = \<lparr> formatted_text =
                [Plain [Lit ''Invalid share count. '', Lit ''You provided '', Int_str n_shares,
                        Lit '' shares.'',
                        Lit '' Shares must be a positive multiple of 100 for covered calls.'']],
              error = Some ''invalid_shares'' \<rparr>"
    by (simp add: failure_def format_error_message_def Let_def)
  show "run_covered_call_strategy env ticker n_shares otm_only =
        Inr \<lparr> formatted_text =
                [Plain [Lit ''Invalid share count. '', Lit ''You provided '', Int_str n_shares,
                        Lit '' shares.'',
                        Lit '' Shares must be a positive multiple of 100 for covered calls.'']],
              error = Some ''invalid_shares'' \<rparr>"
    unfolding run_invalid_shares[OF bad] shape ..
  show "run_covered_call_strategy env' ticker' n_shares otm_only'
          = run_covered_call_strategy env ticker n_shares otm_only"
    unfolding run_invalid_shares[OF bad] ..
next
  assume run: "run_covered_call_strategy env ticker n_shares otm_only = Inr r"
  have codes: "Some ` set error_kinds =
      {Some ''invalid_shares'', Some ''invalid_ticker'', Some ''no_options'',
       Some ''no_liquid_options'', Some ''api_error'', Some ''calculation_error''}"
    unfolding error_kinds_def by (simp only: list.set image_insert image_empty)
  from run_result_cases[OF run] have "error r \<in> Some ` set error_kinds \<or> error r = None"
  proof
    assume "is_failure r"
    then have "error r \<in> Some ` set error_kinds" by (rule is_failure_error)
    then show ?thesis by (rule disjI1)
  next
    assume "\<exists>sp cands outcome.
               choose_option (get_technical_analysis env (py_upper (py_strip ticker))) cands sp
                 n_shares = Inr (Inr outcome)
               \<and> present_recommendation (py_upper (py_strip ticker)) sp n_shares
                   (get_technical_analysis env (py_upper (py_strip ticker))) outcome = Inr r
               \<and> error r = None"
    then have "error r = None" by (elim exE conjE)
    then show ?thesis by (rule disjI2)
  qed
  then show "error r \<in> {Some ''invalid_shares'', Some ''invalid_ticker'', Some ''no_options'',
                    Some ''no_liquid_options'', Some ''api_error'', Some ''calculation_error'',
                    None}"
    unfolding codes by (simp only: insert_iff empty_iff) blast
qed


section \<open>A run of the orchestrator\<close>

lemma example_choice:
  "choose_option mixed_snapshot layer_candidates 100 1000 =
     Inr (Inr \<lparr> chosen_option = metrics_101, chosen_selection = example_selection,
                chosen_layers = Some example_layers \<rparr>)"
  using select_example layered_example
  by (simp add: choose_option_def mixed_snapshot_def get_default_def truthy_def
        example_selection_def example_layers_def)

lemma example_filters:
  "filter_options \<lparr> chain_ticker = t, chain_options = layer_candidates, chain_error = None \<rparr>
     7 45 10 =
     \<lparr> filter_ticker = t, filtered_options = layer_candidates, total_before_filter = 2,
       total_after_filter = 2, filter_error = None \<rparr>"
  "filter_exc (is_sane_option 100) layer_candidates = Inr layer_candidates"
  "filter_exc (is_otm 100) layer_candidates = Inr layer_candidates"
  by (simp_all add: filter_options_def is_set_def layer_candidates_def candidate_def
        in_window_and_liquid_def getitem_def is_sane_option_def is_otm_def get_default_def
        Let_def)

lemma example_presentation:
  "\<exists>r. present_recommendation tk 100 1000 mixed_snapshot
          \<lparr> chosen_option = metrics_101, chosen_selection = example_selection,
            chosen_layers = Some example_layers \<rparr> = Inr r
       \<and> error r = None
       \<and> Rendered (Layered_section example_layers 100 tk) \<in> set (formatted_text r)"
  by (simp add: present_recommendation_def Let_def calculate_breakeven_def
        calculate_max_profit_def py_div_def format_recommendation_def format_fixed_def
        format_itm_warning_def format_layered_strategy_def
        format_integrated_technical_section_def str_method_def
        metrics_101_def metrics_103_def example_layers_def example_selection_def
        mixed_snapshot_def get_default_def truthy_def)

lemma example_run:
  "\<exists>r. run_covered_call_strategy example_env ticker 1000 True = Inr r
       \<and> error r = None
       \<and> Rendered (Layered_section example_layers 100 (py_upper (py_strip ticker)))
            \<in> set (formatted_text r)"
proof -
  obtain r where r:
    "present_recommendation (py_upper (py_strip ticker)) 100 1000 mixed_snapshot
          \<lparr> chosen_option = metrics_101, chosen_selection = example_selection,
            chosen_layers = Some example_layers \<rparr> = Inr r"
    "error r = None"
    "Rendered (Layered_section example_layers 100 (py_upper (py_strip ticker)))
            \<in> set (formatted_text r)"
    using example_presentation by blast
  have ne: "layer_candidates \<noteq> []" by (simp add: layer_candidates_def)
  have "recommend_from_candidates example_env (py_upper (py_strip ticker)) 1000 100
          layer_candidates = Inr r"
    using ne example_choice r(1)
    by (simp add: recommend_from_candidates_def example_env_def)
  then have "recommend_from_chain example_env (py_upper (py_strip ticker)) 1000 True 100 = Inr r"
    using ne example_filters
    by (simp add: recommend_from_chain_def example_env_def is_set_def)
  then have "run_covered_call_strategy example_env ticker 1000 True = Inr r"
    by (simp add: run_covered_call_strategy_def example_env_def is_set_def)
  then show ?thesis using r by blast
qed

theorem layering_gate_witness:
  "(\<exists>outcome. choose_option mixed_snapshot layer_candidates 100 1000 = Inr (Inr outcome)
       \<and> chosen_layers outcome \<noteq> None
       \<and> sel_use_layered (chosen_selection outcome) \<and> (300::int) \<le> 1000)
   \<and> (\<exists>r layered tk. run_covered_call_strategy example_env ''aapl'' 1000 True = Inr r
         \<and> Rendered (Layered_section layered 100 tk) \<in> set (formatted_text r)
         \<and> (\<exists>cands ta sel. select_strike_based_on_technicals cands 100 ta = Inr sel
               \<and> sel_use_layered sel
               \<and> create_layered_strategy cands 100 1000 ta = Inr (Some layered)))
   \<and> (200::int) div 100 < 3
   \<and> create_layered_strategy layer_candidates 100 200 mixed_snapshot = Inr None"
proof -
  let ?outcome = "\<lparr> chosen_option = metrics_101, chosen_selection = example_selection,
                     chosen_layers = Some example_layers \<rparr>"
  obtain r where r: "run_covered_call_strategy example_env ''aapl'' 1000 True = Inr r"
    "Rendered (Layered_section example_layers 100 (py_upper (py_strip ''aapl'')))
       \<in> set (formatted_text r)"
    using example_run by blast
  note gate = layering_gate[of mixed_snapshot layer_candidates 100 1000 ?outcome
      example_env "''aapl''" True r example_layers "py_upper (py_strip ''aapl'')"]
  have a: "sel_use_layered (chosen_selection ?outcome) \<and> (300::int) \<le> 1000"
    using gate example_choice by simp
  have b: "\<exists>cands ta sel. select_strike_based_on_technicals cands 100 ta = Inr sel
               \<and> sel_use_layered sel
               \<and> create_layered_strategy cands 100 1000 ta = Inr (Some example_layers)"
    using gate r by blast
  have c: "create_layered_strategy layer_candidates 100 200 mixed_snapshot = Inr None"
    using layering_gate[of mixed_snapshot layer_candidates 100 200 ?outcome
      example_env "''aapl''" True r example_layers "py_upper (py_strip ''aapl'')"]
    by simp
  show ?thesis
  proof (intro conjI)
    show "\<exists>outcome. choose_option mixed_snapshot layer_candidates 100 1000 = Inr (Inr outcome)
       \<and> chosen_layers outcome \<noteq> None
       \<and> sel_use_layered (chosen_selection outcome) \<and> (300::int) \<le> 1000"
      using example_choice a by (intro exI[of _ ?outcome]) simp
    show "\<exists>r layered tk. run_covered_call_strategy example_env ''aapl'' 1000 True = Inr r
         \<and> Rendered (Layered_section layered 100 tk) \<in> set (formatted_text r)
         \<and> (\<exists>cands ta sel. select_strike_based_on_technicals cands 100 ta = Inr sel
               \<and> sel_use_layered sel
               \<and> create_layered_strategy cands 100 1000 ta = Inr (Some layered))"
      using r b by blast
    show "(200::int) div 100 < 3" by simp
    show "create_layered_strategy layer_candidates 100 200 mixed_snapshot = Inr None"
      by (rule c)
  qed
qed

theorem run_error_codes_witness:
  "(150::int) mod 100 = 50
   \<and> (\<exists>r. run_covered_call_strategy example_env ''aapl'' 150 True = Inr r
          \<and> error r = Some ''invalid_shares''
          \<and> run_covered_call_strategy offline_env ''msft'' 150 False = Inr r)
   \<and> (\<exists>r. run_covered_call_strategy example_env ''aapl'' 1000 True = Inr r \<and> error r = None)"
proof -
  have bad: "(150::int) \<le> 0 \<or> (150::int) mod 100 \<noteq> 0" by simp
  obtain r' where r': "run_covered_call_strategy example_env ''aapl'' 1000 True = Inr r'"
    "error r' = None"
    using example_run by blast
  from run_error_codes[of 150 example_env "''aapl''" True offline_env "''msft''" False] bad
  obtain r where r: "run_covered_call_strategy example_env ''aapl'' 150 True = Inr r"
    "error r = Some ''invalid_shares''"
    "run_covered_call_strategy offline_env ''msft'' 150 False = Inr r"
    by auto
  have "error r' \<in> {Some ''invalid_shares'', Some ''invalid_ticker'', Some ''no_options'',
                    Some ''no_liquid_options'', Some ''api_error'', Some ''calculation_error'',
                    None}"
    using run_error_codes[of 1000 example_env "''aapl''" True example_env "''aapl''" True r'] r'(1)
    by blast
  moreover have "(150::int) mod 100 = 50" by simp
  ultimately show ?thesis using r r' by blast
qed

end
